theory Spec2Isabelle
  imports Complex_Main "HOL-Library.Sublist"
begin

section \<open>Python values used by the hardware monitor\<close>

text \<open>
  The development embeds the class \<open>UniversalHardwareMonitor\<close> of
  \<open>pc_tool_manager_complete.py\<close>. Python names are kept; a leading underscore of a
  private method is dropped, since an Isabelle name cannot start with one.
\<close>

text \<open>\<open>max(lo, min(hi, x))\<close>, the clamp idiom of every sensor and fan formula.\<close>

definition clamp :: "'a::linorder \<Rightarrow> 'a \<Rightarrow> 'a \<Rightarrow> 'a" where
  "clamp lo hi x = max lo (min hi x)"

text \<open>\<open>int(x)\<close> on a float: truncation toward zero.\<close>

definition py_trunc :: "real \<Rightarrow> int" where
  "py_trunc x = (if 0 \<le> x then \<lfloor>x\<rfloor> else \<lceil>x\<rceil>)"

text \<open>
  String operations of the sensor keys, over ASCII: \<open>sub in s\<close>, \<open>s.lower()\<close>,
  \<open>s.split('_')[-1]\<close>, \<open>int(s)\<close> (blanks stripped, an optional sign, decimal digits;
  \<open>None\<close> is \<open>ValueError\<close>) and the decimal rendering of an f-string field.
\<close>

fun contains :: "string \<Rightarrow> string \<Rightarrow> bool" where
  "contains sub [] = (sub = [])"
| "contains sub (c # cs) = (prefix sub (c # cs) \<or> contains sub cs)"

definition lower_char :: "char \<Rightarrow> char" where
  "lower_char c =
     (case map_of (zip ''ABCDEFGHIJKLMNOPQRSTUVWXYZ'' ''abcdefghijklmnopqrstuvwxyz'') c of
        None \<Rightarrow> c | Some l \<Rightarrow> l)"

definition lower :: "string \<Rightarrow> string" where
  "lower s = map lower_char s"

definition last_field :: "string \<Rightarrow> string" where
  "last_field s = rev (takeWhile (\<lambda>c. c \<noteq> CHR ''_'') (rev s))"

definition is_space :: "char \<Rightarrow> bool" where
  "is_space c = (let n = (of_char c :: nat) in (9 \<le> n \<and> n \<le> 13) \<or> (28 \<le> n \<and> n \<le> 32))"

definition strip :: "string \<Rightarrow> string" where
  "strip s = rev (dropWhile is_space (rev (dropWhile is_space s)))"

definition digit_val :: "char \<Rightarrow> nat option" where
  "digit_val c = (let n = (of_char c :: nat) in if 48 \<le> n \<and> n \<le> 57 then Some (n - 48) else None)"

fun digits_val :: "string \<Rightarrow> nat \<Rightarrow> nat option" where
  "digits_val [] acc = Some acc"
| "digits_val (c # cs) acc =
     (case digit_val c of None \<Rightarrow> None | Some d \<Rightarrow> digits_val cs (10 * acc + d))"

definition py_int :: "string \<Rightarrow> int option" where
  "py_int s =
     (case strip s of
        [] \<Rightarrow> None
      | c # cs \<Rightarrow>
          if c = CHR ''-'' then
            (if cs = [] then None else map_option (\<lambda>n. - int n) (digits_val cs 0))
          else if c = CHR ''+'' then
            (if cs = [] then None else map_option int (digits_val cs 0))
          else map_option int (digits_val (c # cs) 0))"

function str_of_nat :: "nat \<Rightarrow> string" where
  "str_of_nat n =
     (if n < 10 then [''0123456789'' ! n]
      else str_of_nat (n div 10) @ [''0123456789'' ! (n mod 10)])"
  by pat_completeness auto
termination
  by (relation "measure id") auto

declare str_of_nat.simps [simp del]

subsection \<open>Binary64 arithmetic of \<open>set_fan_speed\<close>\<close>

text \<open>
  \<open>set_fan_speed\<close> truncates a float product, so its result depends on how the product
  is rounded. That one computation is modelled in binary64: a finite double is a pair
  \<open>(m, e)\<close> standing for \<open>m * 2 ^ e\<close>, and every operation rounds the exact result to
  53 significant bits, ties to even. Subnormal results are not modelled: the operands
  here are integers and the constant \<open>100.0\<close>, whose quotients and products are zero or
  of magnitude at least \<open>0.01\<close>.
\<close>

type_synonym double = "int \<times> int"

fun bit_length :: "nat \<Rightarrow> nat" where
  "bit_length n = (if n = 0 then 0 else Suc (bit_length (n div 2)))"

declare bit_length.simps [simp del]

text \<open>The integer nearest to \<open>n / d\<close> for \<open>0 \<le> n\<close> and \<open>0 < d\<close>, ties to even.\<close>

definition rne_div :: "int \<Rightarrow> int \<Rightarrow> int" where
  "rne_div n d =
     (let q = n div d; r = n mod d
      in if 2 * r < d then q
         else if d < 2 * r then q + 1
         else if even q then q else q + 1)"

text \<open>\<open>n / d\<close> with the binary exponent \<open>e\<close> moved into numerator or denominator.\<close>

definition scale2 :: "int \<Rightarrow> int \<Rightarrow> int \<Rightarrow> int \<times> int" where
  "scale2 n d e = (if 0 \<le> e then (n, d * 2 ^ nat e) else (n * 2 ^ nat (- e), d))"

text \<open>
  The double nearest to \<open>n / d\<close> for \<open>0 < n\<close> and \<open>0 < d\<close>: the exponent \<open>e\<close> is chosen
  with \<open>2 ^ 52 \<le> n / (d * 2 ^ e) < 2 ^ 53\<close>, and the significand is rounded.
\<close>

definition round53 :: "int \<Rightarrow> int \<Rightarrow> double" where
  "round53 n d =
     (let t = int (bit_length (nat n)) - int (bit_length (nat d));
          e = (case scale2 n d t of (n1, d1) \<Rightarrow> if d1 \<le> n1 then t - 52 else t - 53)
      in case scale2 n d e of (n2, d2) \<Rightarrow> (rne_div n2 d2, e))"

text \<open>
  A rounded magnitude that reaches \<open>2 ^ 1024\<close> is beyond the largest double: the bit
  length of the significand plus the exponent exceeds 1024.
\<close>

definition overflows :: "double \<Rightarrow> bool" where
  "overflows x = (case x of (m, e) \<Rightarrow> 1024 < int (bit_length (nat \<bar>m\<bar>)) + e)"

definition signed_round :: "int \<Rightarrow> int \<Rightarrow> int \<Rightarrow> double" where
  "signed_round sg n d =
     (if n = 0 then (0, 0) else case round53 n d of (m, e) \<Rightarrow> (sg * m, e))"

text \<open>
  \<open>float(p)\<close> as \<open>int / float\<close> and \<open>float * int\<close> perform it: exact below \<open>2 ^ 53\<close>,
  correctly rounded above, and \<open>OverflowError\<close> (here \<open>None\<close>) when the integer is too
  large for a double.
\<close>

definition float_of_int :: "int \<Rightarrow> double option" where
  "float_of_int p =
     (if \<bar>p\<bar> < 2 ^ 53 then Some (p, 0)
      else let x = signed_round (sgn p) \<bar>p\<bar> 1 in if overflows x then None else Some x)"

text \<open>Float division by a non-zero double; it can neither overflow nor underflow here.\<close>

definition fdiv :: "double \<Rightarrow> double \<Rightarrow> double" where
  "fdiv x y =
     (case x of (mx, ex) \<Rightarrow> case y of (my, ey) \<Rightarrow>
        signed_round (sgn mx * sgn my)
          (\<bar>mx\<bar> * 2 ^ nat (ex - ey)) (\<bar>my\<bar> * 2 ^ nat (ey - ex)))"

text \<open>Float multiplication; \<open>None\<close> stands for an infinite product.\<close>

definition fmul :: "double \<Rightarrow> double \<Rightarrow> double option" where
  "fmul x y =
     (case x of (mx, ex) \<Rightarrow> case y of (my, ey) \<Rightarrow>
        let r = signed_round (sgn mx * sgn my)
                  (\<bar>mx * my\<bar> * 2 ^ nat (ex + ey)) (2 ^ nat (- (ex + ey)))
        in if overflows r then None else Some r)"

text \<open>\<open>int(x)\<close> on a finite double: truncation toward zero.\<close>

definition int_of_double :: "double \<Rightarrow> int" where
  "int_of_double x =
     (case x of (m, e) \<Rightarrow>
        if 0 \<le> e then m * 2 ^ nat e else sgn m * (\<bar>m\<bar> div 2 ^ nat (- e)))"

text \<open>
  \<open>int((speed_percent / 100.0) * max_rpm)\<close>. \<open>None\<close> is the \<open>OverflowError\<close> raised by
  the conversion of an operand, or by \<open>int\<close> on an infinite product.
\<close>

definition rpm_of_percent :: "int \<Rightarrow> int \<Rightarrow> int option" where
  "rpm_of_percent speed_percent max_rpm_v =
     (case float_of_int speed_percent of
        None \<Rightarrow> None
      | Some x \<Rightarrow>
          (case float_of_int max_rpm_v of
             None \<Rightarrow> None
           | Some y \<Rightarrow>
               (case fmul (fdiv x (100, 0)) y of
                  None \<Rightarrow> None
                | Some r \<Rightarrow> Some (int_of_double r))))"


section \<open>The outside world\<close>

text \<open>
  The monitor reads the clock, the random generator and \<open>psutil\<close>. Each external call is
  answered by an oracle indexed by the number of external calls made so far, and is
  appended to a log, so that a value may differ from call to call and the calls that
  a method makes can be told from the log.
\<close>

datatype ext_call =
  TimeTime | RandomRandom | ImportPsutil | CpuPercent | VirtualMemory | CpuFreq
  | CpuCount | DiskIoCounters | DiskPartitions | PlatformProcessor | GpuNameQuery

text \<open>The fields of \<open>psutil.virtual_memory()\<close> that the monitor reads.\<close>

record svmem =
  mem_total :: int
  mem_used :: int
  mem_percent :: real

text \<open>
  An oracle yields \<open>None\<close> where the call raises. \<open>psutil.cpu_freq()\<close>,
  \<open>psutil.cpu_count()\<close> and \<open>psutil.disk_io_counters()\<close> may also return Python's
  \<open>None\<close>, the inner \<open>None\<close> of their oracles. \<open>random_oracle\<close> is
  \<open>random.random()\<close>, the unit sample behind \<open>random.uniform\<close>.
\<close>

record world =
  log :: "ext_call list"
  time_oracle :: "nat \<Rightarrow> real"
  random_oracle :: "nat \<Rightarrow> real"
  import_psutil_oracle :: "nat \<Rightarrow> bool"
  cpu_percent_oracle :: "nat \<Rightarrow> real option"
  virtual_memory_oracle :: "nat \<Rightarrow> svmem option"
  cpu_freq_oracle :: "nat \<Rightarrow> real option option"
  cpu_count_oracle :: "nat \<Rightarrow> nat option option"
  disk_io_oracle :: "nat \<Rightarrow> (int \<times> int) option option"
  disk_partitions_oracle :: "nat \<Rightarrow> string list option"
  processor_oracle :: "nat \<Rightarrow> string option"
  gpu_name_oracle :: "nat \<Rightarrow> string option"

definition called :: "ext_call \<Rightarrow> world \<Rightarrow> world" where
  "called c w = w\<lparr>log := log w @ [c]\<rparr>"

definition time_time :: "world \<Rightarrow> real \<times> world" where
  "time_time w = (time_oracle w (length (log w)), called TimeTime w)"

text \<open>\<open>random.uniform(a, b)\<close> is \<open>a + (b - a) * random.random()\<close>.\<close>

definition uniform :: "real \<Rightarrow> real \<Rightarrow> world \<Rightarrow> real \<times> world" where
  "uniform a b w = (a + (b - a) * random_oracle w (length (log w)), called RandomRandom w)"

definition import_psutil :: "world \<Rightarrow> bool \<times> world" where
  "import_psutil w = (import_psutil_oracle w (length (log w)), called ImportPsutil w)"

definition psutil_cpu_percent :: "world \<Rightarrow> real option \<times> world" where
  "psutil_cpu_percent w = (cpu_percent_oracle w (length (log w)), called CpuPercent w)"

definition psutil_virtual_memory :: "world \<Rightarrow> svmem option \<times> world" where
  "psutil_virtual_memory w =
     (virtual_memory_oracle w (length (log w)), called VirtualMemory w)"

definition psutil_cpu_freq :: "world \<Rightarrow> real option option \<times> world" where
  "psutil_cpu_freq w = (cpu_freq_oracle w (length (log w)), called CpuFreq w)"

definition psutil_cpu_count :: "world \<Rightarrow> nat option option \<times> world" where
  "psutil_cpu_count w = (cpu_count_oracle w (length (log w)), called CpuCount w)"

definition psutil_disk_io_counters :: "world \<Rightarrow> (int \<times> int) option option \<times> world" where
  "psutil_disk_io_counters w = (disk_io_oracle w (length (log w)), called DiskIoCounters w)"

definition psutil_disk_partitions :: "world \<Rightarrow> string list option \<times> world" where
  "psutil_disk_partitions w =
     (disk_partitions_oracle w (length (log w)), called DiskPartitions w)"

text \<open>
  \<open>platform.processor()\<close>, and the PowerShell query for the name of the video adapter:
  \<open>Some\<close> of the stripped output when the process exits with code 0, \<open>None\<close> when it
  raises, times out or exits with another code.
\<close>

definition platform_processor :: "world \<Rightarrow> string option \<times> world" where
  "platform_processor w = (processor_oracle w (length (log w)), called PlatformProcessor w)"

definition gpu_name_query :: "world \<Rightarrow> string option \<times> world" where
  "gpu_name_query w = (gpu_name_oracle w (length (log w)), called GpuNameQuery w)"

section \<open>Data model and object store\<close>

text \<open>
  A sensor is a Python dict with the keys \<open>name\<close>, \<open>type\<close>, \<open>current\<close>, \<open>method\<close>
  and \<open>unit\<close>; detectors add \<open>max\<close>, \<open>size_gb\<close> or \<open>memory_gb\<close>, kept in \<open>extras\<close>.
  The monitor reads \<open>current\<close> and \<open>method\<close> with \<open>dict.get\<close> and a default, so
  these two keys may be absent. The fields \<open>stype\<close>, \<open>smethod\<close> and \<open>sunit\<close> stand for
  the keys \<open>type\<close>, \<open>method\<close> and \<open>unit\<close>.
\<close>

record sensor =
  name :: string
  stype :: string
  current :: "real option"
  smethod :: "string option"
  sunit :: string
  extras :: "(string \<times> real) list"

text \<open>A fan is a dict with exactly these four keys (\<open>_initialize_fan_status\<close>).\<close>

record fan =
  current_rpm :: int
  current_speed :: int
  max_rpm :: int
  status :: string

text \<open>
  A Python dict keeps its keys in insertion order: an association list with distinct
  keys. \<open>d[k] = v\<close> replaces the value of a present key in place and appends an absent
  one; \<open>d.update(other)\<close> stores the items of \<open>other\<close> in their order.
\<close>

definition dict_set :: "string \<Rightarrow> 'v \<Rightarrow> (string \<times> 'v) list \<Rightarrow> (string \<times> 'v) list" where
  "dict_set k v d =
     (if k \<in> fst ` set d then map (\<lambda>kv. if fst kv = k then (k, v) else kv) d
      else d @ [(k, v)])"

definition dict_update :: "(string \<times> 'v) list \<Rightarrow> (string \<times> 'v) list \<Rightarrow> (string \<times> 'v) list" where
  "dict_update d other = foldl (\<lambda>acc kv. dict_set (fst kv) (snd kv) acc) d other"

text \<open>
  Sensor and fan dicts are mutable objects that the monitor's maps refer to, and the
  public methods hand out references to them. The store holds the objects by address,
  one heap per kind of object; \<open>next_addr\<close> is the first address not yet allocated.
  The remaining fields are the attributes of the monitor object itself: \<open>sensors\<close> and
  \<open>fan_status\<close> are references to maps from key to the address of a sensor or fan.
\<close>

type_synonym addr = nat

record state =
  sensor_at :: "addr \<Rightarrow> sensor"
  sdict_at :: "addr \<Rightarrow> (string \<times> addr) list"
  fan_at :: "addr \<Rightarrow> fan"
  fdict_at :: "addr \<Rightarrow> (string \<times> addr) list"
  next_addr :: addr
  sensors :: addr
  fan_status :: addr
  last_cpu_check :: real
  last_memory_check :: real
  cached_cpu_percent :: real
  cached_memory_percent :: real
  cache_duration :: real

definition alloc_sensor :: "sensor \<Rightarrow> state \<Rightarrow> addr \<times> state" where
  "alloc_sensor x s =
     (next_addr s, s\<lparr>sensor_at := (sensor_at s)(next_addr s := x), next_addr := Suc (next_addr s)\<rparr>)"

definition alloc_sdict :: "(string \<times> addr) list \<Rightarrow> state \<Rightarrow> addr \<times> state" where
  "alloc_sdict d s =
     (next_addr s, s\<lparr>sdict_at := (sdict_at s)(next_addr s := d), next_addr := Suc (next_addr s)\<rparr>)"

definition alloc_fan :: "fan \<Rightarrow> state \<Rightarrow> addr \<times> state" where
  "alloc_fan x s =
     (next_addr s, s\<lparr>fan_at := (fan_at s)(next_addr s := x), next_addr := Suc (next_addr s)\<rparr>)"

definition alloc_fdict :: "(string \<times> addr) list \<Rightarrow> state \<Rightarrow> addr \<times> state" where
  "alloc_fdict d s =
     (next_addr s, s\<lparr>fdict_at := (fdict_at s)(next_addr s := d), next_addr := Suc (next_addr s)\<rparr>)"

text \<open>
  The monitor after the attribute assignments that open \<open>__init__\<close>: two empty maps,
  zeroed cache fields and a cache duration of two seconds.
\<close>

definition fresh_monitor :: state where
  "fresh_monitor =
     \<lparr>sensor_at = (\<lambda>a. \<lparr>name = [], stype = [], current = None, smethod = None,
                          sunit = [], extras = []\<rparr>),
      sdict_at = (\<lambda>a. []),
      fan_at = (\<lambda>a. \<lparr>current_rpm = 0, current_speed = 0, max_rpm = 0, status = []\<rparr>),
      fdict_at = (\<lambda>a. []),
      next_addr = 2, sensors = 0, fan_status = 1,
      last_cpu_check = 0, last_memory_check = 0,
      cached_cpu_percent = 0, cached_memory_percent = 0, cache_duration = 2\<rparr>"

section \<open>Metric cache\<close>

text \<open>
  \<open>_get_cached_cpu_percent\<close> and \<open>_get_cached_memory_percent\<close>. The bare \<open>except\<close>
  swallows a failing import or query and leaves the cache as it was.
\<close>

definition get_cached_cpu_percent :: "state \<Rightarrow> world \<Rightarrow> real \<times> state \<times> world" where
  "get_cached_cpu_percent s w =
     (case time_time w of (current_time, w1) \<Rightarrow>
        if current_time - last_cpu_check s > cache_duration s then
          (case import_psutil w1 of (ok, w2) \<Rightarrow>
             if \<not> ok then (cached_cpu_percent s, s, w2)
             else
               (case psutil_cpu_percent w2 of
                  (None, w3) \<Rightarrow> (cached_cpu_percent s, s, w3)
                | (Some v, w3) \<Rightarrow>
                    (v, s\<lparr>cached_cpu_percent := v, last_cpu_check := current_time\<rparr>, w3)))
        else (cached_cpu_percent s, s, w1))"

definition get_cached_memory_percent :: "state \<Rightarrow> world \<Rightarrow> real \<times> state \<times> world" where
  "get_cached_memory_percent s w =
     (case time_time w of (current_time, w1) \<Rightarrow>
        if current_time - last_memory_check s > cache_duration s then
          (case import_psutil w1 of (ok, w2) \<Rightarrow>
             if \<not> ok then (cached_memory_percent s, s, w2)
             else
               (case psutil_virtual_memory w2 of
                  (None, w3) \<Rightarrow> (cached_memory_percent s, s, w3)
                | (Some vm, w3) \<Rightarrow>
                    (mem_percent vm,
                     s\<lparr>cached_memory_percent := mem_percent vm,
                       last_memory_check := current_time\<rparr>, w3)))
        else (cached_memory_percent s, s, w1))"

section \<open>Synthetic sensor generator\<close>

text \<open>The unit string, degree sign and \<open>C\<close>, in UTF-8.\<close>

definition degC :: string where
  "degC = [CHR 0xC2, CHR 0xB0, CHR ''C'']"

definition simulated :: "string \<Rightarrow> string \<Rightarrow> real \<Rightarrow> string \<Rightarrow> sensor" where
  "simulated nm ty cur meth =
     \<lparr>name = nm, stype = ty, current = Some cur, smethod = Some meth, sunit = degC,
      extras = []\<rparr>"

text \<open>
  \<open>_create_simulated_sensors\<close> is one \<open>try\<close> block that returns the dict built so far
  when anything raises. It is split at its comment headings. A part that can raise
  returns a flag, true when it raised, with the dict and the world at that point.
\<close>

fun core_loop :: "nat list \<Rightarrow> real \<Rightarrow> real option \<Rightarrow> (string \<times> sensor) list \<Rightarrow> world
    \<Rightarrow> (string \<times> sensor) list \<times> world" where
  "core_loop [] cpu_temp cpu_freq sensors_d w = (sensors_d, w)"
| "core_loop (i # rest) cpu_temp cpu_freq sensors_d w =
     (case uniform (- 5) 10 w of (core_load_jitter, w1) \<Rightarrow>
      case uniform (- 2) 4 w1 of (u, w2) \<Rightarrow>
        let core_temp = (case cpu_freq of
                           None \<Rightarrow> cpu_temp + u
                         | Some f \<Rightarrow> cpu_temp + u + f / 3000 * 5)
        in core_loop rest cpu_temp cpu_freq
             (dict_set (''cpu_core_'' @ str_of_nat i)
                (simulated (''CPU Core '' @ str_of_nat (i + 1)) ''CPU''
                   (clamp 28 90 core_temp) ''Simulated (Core-specific)'') sensors_d) w2)"

fun thread_loop :: "nat list \<Rightarrow> real \<Rightarrow> (string \<times> sensor) list \<Rightarrow> world
    \<Rightarrow> (string \<times> sensor) list \<times> world" where
  "thread_loop [] cpu_temp sensors_d w = (sensors_d, w)"
| "thread_loop (i # rest) cpu_temp sensors_d w =
     (case uniform (- 1) 3 w of (u, w1) \<Rightarrow>
        thread_loop rest cpu_temp
          (dict_set (''cpu_thread_'' @ str_of_nat i)
             (simulated (''CPU Thread '' @ str_of_nat (i + 1)) ''CPU''
                (clamp 27 88 (cpu_temp + u)) ''Simulated (Thread-specific)'') sensors_d) w1)"

text \<open>
  CPU package, cores and threads. \<open>range(cpu_count)\<close> and the comparison with
  \<open>cpu_count_logical\<close> raise \<open>TypeError\<close> when \<open>psutil.cpu_count\<close> returned \<open>None\<close>.
  The result carries \<open>cpu_temp\<close> for the VRM sensor.
\<close>

definition simulated_cpu :: "real \<Rightarrow> real option \<Rightarrow> nat option \<Rightarrow> nat option \<Rightarrow> world
    \<Rightarrow> bool \<times> (string \<times> sensor) list \<times> world \<times> real" where
  "simulated_cpu cpu_percent cpu_freq cpu_count cpu_count_logical w =
     (let freq_factor = (case cpu_freq of None \<Rightarrow> 0 | Some f \<Rightarrow> f / 3000 * 10);
          load_factor = cpu_percent / 100 * 20
      in case uniform (- 1) 2 w of (u, w1) \<Rightarrow>
         let cpu_temp = clamp 30 85 (35 + freq_factor + load_factor + u)
         in case platform_processor w1 of (proc, w2) \<Rightarrow>
            let cpu_name = (case proc of None \<Rightarrow> ''CPU Package'' | Some p \<Rightarrow> p @ '' Package'');
                d0 = dict_set ''cpu_package''
                       (simulated cpu_name ''CPU'' cpu_temp ''Simulated (Load+Freq-based)'') []
            in (case cpu_count of
                  None \<Rightarrow> (True, d0, w2, cpu_temp)
                | Some n \<Rightarrow>
                    (case core_loop [0..<n] cpu_temp cpu_freq d0 w2 of (d1, w3) \<Rightarrow>
                       (case cpu_count_logical of
                          None \<Rightarrow> (True, d1, w3, cpu_temp)
                        | Some l \<Rightarrow>
                            if l > n then
                              (case thread_loop [n..<l] cpu_temp d1 w3 of (d2, w4) \<Rightarrow>
                                 (False, d2, w4, cpu_temp))
                            else (False, d1, w3, cpu_temp)))))"

fun ram_loop :: "nat list \<Rightarrow> real \<Rightarrow> (string \<times> sensor) list \<Rightarrow> world
    \<Rightarrow> (string \<times> sensor) list \<times> world" where
  "ram_loop [] usage sensors_d w = (sensors_d, w)"
| "ram_loop (i # rest) usage sensors_d w =
     (case uniform (- 2) 3 w of (u, w1) \<Rightarrow>
        ram_loop rest usage
          (dict_set (''ram_module_'' @ str_of_nat i)
             (simulated (''RAM Module '' @ str_of_nat (i + 1)) ''Memory''
                (clamp 20 60 (25 + usage * 15 + u)) ''Simulated (Usage-based)'') sensors_d) w1)"

fun dimm_loop :: "nat list \<Rightarrow> (string \<times> sensor) list \<Rightarrow> world
    \<Rightarrow> (string \<times> sensor) list \<times> world" where
  "dimm_loop [] sensors_d w = (sensors_d, w)"
| "dimm_loop (i # rest) sensors_d w =
     (case uniform (- 1) 3 w of (u, w1) \<Rightarrow>
        dimm_loop rest
          (dict_set (''ram_dimm_'' @ str_of_nat i)
             (simulated (''DIMM Slot '' @ str_of_nat (i + 1)) ''Memory''
                (clamp 22 50 (28 + u)) ''Simulated (DIMM)'') sensors_d) w1)"

text \<open>
  RAM modules, controller and DIMM slots. The second \<open>psutil.virtual_memory()\<close> may
  raise, and \<open>ram_used_gb / ram_total_gb\<close> raises \<open>ZeroDivisionError\<close> in the first
  round of the module loop when the total is zero. The result carries \<open>ram_total_gb\<close>
  for the storage heuristics.
\<close>

definition simulated_memory :: "(string \<times> sensor) list \<Rightarrow> world
    \<Rightarrow> bool \<times> (string \<times> sensor) list \<times> world \<times> real" where
  "simulated_memory sensors_d w =
     (case psutil_virtual_memory w of
        (None, w1) \<Rightarrow> (True, sensors_d, w1, 0)
      | (Some memory, w1) \<Rightarrow>
          let ram_total_gb = real_of_int (mem_total memory) / 1024 ^ 3;
              ram_used_gb = real_of_int (mem_used memory) / 1024 ^ 3;
              ram_banks = nat (clamp 2 8 (py_trunc (ram_total_gb / 4)))
          in if ram_total_gb = 0 then (True, sensors_d, w1, ram_total_gb)
             else
               (case ram_loop [0..<ram_banks] (ram_used_gb / ram_total_gb) sensors_d w1 of
                  (d1, w2) \<Rightarrow>
                  case uniform (- 1) 2 w2 of (u, w3) \<Rightarrow>
                    let d2 = dict_set ''ram_controller''
                               (simulated ''RAM Controller'' ''Memory''
                                  (clamp 25 55 (30 + ram_used_gb / ram_total_gb * 10 + u))
                                  ''Simulated (Controller)'') d1
                    in case dimm_loop [0..<4] d2 w3 of (d3, w4) \<Rightarrow>
                         (False, d3, w4, ram_total_gb)))"

text \<open>GPU core, memory, VRM, hot spot and fan; nothing here can raise.\<close>

definition simulated_gpu :: "real \<Rightarrow> real \<Rightarrow> (string \<times> sensor) list \<Rightarrow> world
    \<Rightarrow> (string \<times> sensor) list \<times> world" where
  "simulated_gpu cpu_percent memory_percent sensors_d w =
     (let gpu_activity = (memory_percent * 0.3 + cpu_percent * 0.4) / 100
      in case uniform (- 1) 3 w of (u0, w1) \<Rightarrow>
         let gpu_temp = clamp 25 80 (30 + gpu_activity * 25 + u0)
         in case gpu_name_query w1 of (q, w2) \<Rightarrow>
            let gpu_name = (case q of
                              None \<Rightarrow> ''Graphics Card''
                            | Some out \<Rightarrow> if out = [] then ''Graphics Card'' else out);
                d1 = dict_set ''gpu_core''
                       (simulated (gpu_name @ '' Core'') ''GPU'' gpu_temp
                          ''Simulated (Activity-based)'') sensors_d
            in case uniform (- 3) 5 w2 of (u1, w3) \<Rightarrow>
               let d2 = dict_set ''gpu_memory''
                          (simulated (gpu_name @ '' Memory'') ''GPU''
                             (clamp 22 75 (gpu_temp + u1)) ''Simulated (GPU-based)'') d1
               in case uniform 2 8 w3 of (u2, w4) \<Rightarrow>
                  let d3 = dict_set ''gpu_vrm''
                             (simulated (gpu_name @ '' VRM'') ''GPU''
                                (clamp 25 80 (gpu_temp + u2)) ''Simulated (GPU VRM)'') d2
                  in case uniform 5 12 w4 of (u3, w5) \<Rightarrow>
                     let d4 = dict_set ''gpu_hotspot''
                                (simulated (gpu_name @ '' Hot Spot'') ''GPU''
                                   (clamp 30 85 (gpu_temp + u3)) ''Simulated (GPU Hot Spot)'') d3
                     in case uniform 5 15 w5 of (u4, w6) \<Rightarrow>
                          (dict_set ''gpu_fan''
                             (simulated (gpu_name @ '' Fan'') ''GPU''
                                (clamp 20 60 (gpu_temp - u4)) ''Simulated (GPU Fan)'') d4, w6))"

fun pcie_loop :: "nat list \<Rightarrow> (string \<times> sensor) list \<Rightarrow> world
    \<Rightarrow> (string \<times> sensor) list \<times> world" where
  "pcie_loop [] sensors_d w = (sensors_d, w)"
| "pcie_loop (i # rest) sensors_d w =
     (case uniform (- 1) 3 w of (u, w1) \<Rightarrow>
        pcie_loop rest
          (dict_set (''pcie_slot_'' @ str_of_nat i)
             (simulated (''PCIe Slot '' @ str_of_nat (i + 1)) ''System'' (30 + u)
                ''Simulated (PCIe)'') sensors_d) w1)"

text \<open>Motherboard, chipset, south bridge, PCIe slots and VRM.\<close>

definition simulated_system :: "real \<Rightarrow> (string \<times> sensor) list \<Rightarrow> world
    \<Rightarrow> (string \<times> sensor) list \<times> world" where
  "simulated_system cpu_temp sensors_d w =
     (case uniform 0 8 w of (u0, w1) \<Rightarrow>
      let d1 = dict_set ''motherboard''
                 (simulated ''Motherboard'' ''System'' (28 + u0) ''Simulated (Ambient)'') sensors_d
      in case uniform (- 2) 5 w1 of (u1, w2) \<Rightarrow>
         let d2 = dict_set ''chipset''
                    (simulated ''Chipset'' ''System'' (35 + u1) ''Simulated (Chipset)'') d1
         in case uniform (- 1) 4 w2 of (u2, w3) \<Rightarrow>
            let d3 = dict_set ''southbridge''
                       (simulated ''South Bridge'' ''System'' (32 + u2)
                          ''Simulated (South Bridge)'') d2
            in case pcie_loop [0..<3] d3 w3 of (d4, w4) \<Rightarrow>
               case uniform 5 15 w4 of (u3, w5) \<Rightarrow>
                 (dict_set ''vrm''
                    (simulated ''VRM (CPU Power)'' ''System'' (clamp 35 95 (cpu_temp + u3))
                       ''Simulated (CPU-based)'') d4, w5))"

text \<open>
  The \<open>except\<close> branch of the storage block: a single default sensor.
\<close>

definition storage_fallback :: "(string \<times> sensor) list \<Rightarrow> world
    \<Rightarrow> (string \<times> sensor) list \<times> world" where
  "storage_fallback sensors_d w =
     (case uniform 0 5 w of (u, w1) \<Rightarrow>
        (dict_set ''storage_primary''
           (simulated ''Primary Storage'' ''Storage'' (32 + u) ''Simulated (Default)'')
           sensors_d, w1))"

text \<open>
  The storage block, a \<open>try\<close> of its own: only the two \<open>psutil\<close> queries at its head
  can raise. A partition is represented by its device string.
\<close>

definition simulated_storage :: "real \<Rightarrow> (string \<times> sensor) list \<Rightarrow> world
    \<Rightarrow> (string \<times> sensor) list \<times> world" where
  "simulated_storage ram_total_gb sensors_d w =
     (case psutil_disk_io_counters w of
        (None, w1) \<Rightarrow> storage_fallback sensors_d w1
      | (Some disk_io, w1) \<Rightarrow>
          (case psutil_disk_partitions w1 of
             (None, w2) \<Rightarrow> storage_fallback sensors_d w2
           | (Some disk_partitions, w2) \<Rightarrow>
               let found_ssd = list_ex (\<lambda>dev. dev \<noteq> [] \<and> contains ''ssd'' (lower dev))
                                 disk_partitions;
                   found_hdd = list_ex (\<lambda>dev. \<not> (dev \<noteq> [] \<and> contains ''ssd'' (lower dev)) \<and>
                                   dev \<noteq> [] \<and>
                                   (contains ''hdd'' (lower dev) \<or> contains ''disk'' (lower dev)))
                                 disk_partitions;
                   has_ssd = (if \<not> found_ssd \<and> \<not> found_hdd then True else found_ssd);
                   has_hdd = (if \<not> found_ssd \<and> \<not> found_hdd then \<not> (ram_total_gb \<ge> 16)
                              else found_hdd);
                   activity_factor =
                     (case disk_io of
                        None \<Rightarrow> 0
                      | Some (read_bytes, write_bytes) \<Rightarrow>
                          min (real_of_int (read_bytes + write_bytes) / 1024 ^ 3 / 100) 15)
               in case (if has_ssd then
                          (case uniform (- 1) 2 w2 of (u, wa) \<Rightarrow>
                           let ssd_temp = clamp 20 45 (28 + activity_factor + u);
                               da = dict_set ''storage_ssd''
                                      (simulated ''Primary SSD'' ''Storage'' ssd_temp
                                         ''Simulated (SSD IO-based)'') sensors_d
                           in case uniform 2 6 wa of (v, wb) \<Rightarrow>
                                (dict_set ''storage_ssd_controller''
                                   (simulated ''SSD Controller'' ''Storage''
                                      (clamp 25 50 (ssd_temp + v))
                                      ''Simulated (SSD Controller)'') da, wb))
                        else (sensors_d, w2)) of (d1, w3) \<Rightarrow>
                  case (if has_hdd then
                          (case uniform (- 2) 4 w3 of (u, wa) \<Rightarrow>
                           let hdd_temp = clamp 30 55 (35 + activity_factor + u);
                               da = dict_set ''storage_hdd''
                                      (simulated ''Secondary HDD'' ''Storage'' hdd_temp
                                         ''Simulated (HDD IO-based)'') d1
                           in case uniform 3 8 wa of (v, wb) \<Rightarrow>
                                (dict_set ''storage_hdd_motor''
                                   (simulated ''HDD Motor'' ''Storage''
                                      (clamp 35 60 (hdd_temp + v))
                                      ''Simulated (HDD Motor)'') da, wb))
                        else (d1, w3)) of (d2, w4) \<Rightarrow>
                  if ram_total_gb \<ge> 32 then
                    (case uniform (- 1) 3 w4 of (u, w5) \<Rightarrow>
                       (dict_set ''storage_nvme''
                          (simulated ''NVMe SSD'' ''Storage''
                             (clamp 25 50 (32 + activity_factor + u))
                             ''Simulated (NVMe IO-based)'') d2, w5))
                  else (d2, w4)))"

definition simulated_psu :: "real \<Rightarrow> real \<Rightarrow> (string \<times> sensor) list \<Rightarrow> world
    \<Rightarrow> (string \<times> sensor) list \<times> world" where
  "simulated_psu cpu_percent memory_percent sensors_d w =
     (let system_load = (cpu_percent + memory_percent) / 2
      in case uniform (- 2) 3 w of (u, w1) \<Rightarrow>
           (dict_set ''psu''
              (simulated ''Power Supply'' ''System''
                 (clamp 30 65 (35 + system_load / 100 * 15 + u))
                 ''Simulated (System Load)'') sensors_d, w1))"

text \<open>
  The whole method. The five queries at its head run before the first sensor is
  stored: when one of them raises, the method returns an empty dict.
\<close>

definition create_simulated_sensors :: "world \<Rightarrow> (string \<times> sensor) list \<times> world" where
  "create_simulated_sensors w =
     (case import_psutil w of (ok, w1) \<Rightarrow>
      if \<not> ok then ([], w1)
      else
        (case psutil_cpu_percent w1 of
           (None, w2) \<Rightarrow> ([], w2)
         | (Some cpu_percent, w2) \<Rightarrow>
        (case psutil_virtual_memory w2 of
           (None, w3) \<Rightarrow> ([], w3)
         | (Some vm, w3) \<Rightarrow>
        (case psutil_cpu_freq w3 of
           (None, w4) \<Rightarrow> ([], w4)
         | (Some cpu_freq, w4) \<Rightarrow>
        (case psutil_cpu_count w4 of
           (None, w5) \<Rightarrow> ([], w5)
         | (Some cpu_count, w5) \<Rightarrow>
        (case psutil_cpu_count w5 of
           (None, w6) \<Rightarrow> ([], w6)
         | (Some cpu_count_logical, w6) \<Rightarrow>
        (case simulated_cpu cpu_percent cpu_freq cpu_count cpu_count_logical w6 of
           (raised, d1, w7, cpu_temp) \<Rightarrow>
        if raised then (d1, w7)
        else
          (case simulated_memory d1 w7 of (raised2, d2, w8, ram_total_gb) \<Rightarrow>
           if raised2 then (d2, w8)
           else
             (case simulated_gpu cpu_percent (mem_percent vm) d2 w8 of (d3, w9) \<Rightarrow>
             (case simulated_system cpu_temp d3 w9 of (d4, w10) \<Rightarrow>
             (case simulated_storage ram_total_gb d4 w10 of (d5, w11) \<Rightarrow>
                simulated_psu cpu_percent (mem_percent vm) d5 w11)))))))))))"

section \<open>Detection strategy chain\<close>

text \<open>
  A detection method takes no argument and returns a dict of sensors, or raises
  (\<open>None\<close>). The five registered methods query WMI, PowerShell and \<open>psutil\<close>; the chain
  treats them alike, so \<open>detect_all_sensors\<close> takes the list \<open>self.detection_methods\<close>
  as a parameter.
\<close>

type_synonym detector = "world \<Rightarrow> (string \<times> sensor) list option \<times> world"

fun run_detectors :: "detector list \<Rightarrow> (string \<times> sensor) list \<Rightarrow> world
    \<Rightarrow> (string \<times> sensor) list \<times> world" where
  "run_detectors [] all_sensors w = (all_sensors, w)"
| "run_detectors (detect # rest) all_sensors w =
     (case detect w of
        (None, w1) \<Rightarrow> run_detectors rest all_sensors w1
      | (Some found, w1) \<Rightarrow>
          run_detectors rest
            (if found \<noteq> [] then dict_update all_sensors found else all_sensors) w1)"

text \<open>
  The dicts that the detectors and the generator build are local to the call until
  \<open>self.sensors = all_sensors\<close>. At that point the model allocates one object for
  each sensor and one for the map.
\<close>

fun alloc_sensors :: "(string \<times> sensor) list \<Rightarrow> state \<Rightarrow> (string \<times> addr) list \<times> state" where
  "alloc_sensors [] s = ([], s)"
| "alloc_sensors ((k, x) # rest) s =
     (case alloc_sensor x s of (a, s1) \<Rightarrow>
      case alloc_sensors rest s1 of (refs, s2) \<Rightarrow> ((k, a) # refs, s2))"

definition detect_all_sensors :: "detector list \<Rightarrow> state \<Rightarrow> world \<Rightarrow> addr \<times> state \<times> world" where
  "detect_all_sensors detection_methods s w =
     (case run_detectors detection_methods [] w of (found, w1) \<Rightarrow>
      case (if length found < 5 then
              (case create_simulated_sensors w1 of (simulated_sensors, w2) \<Rightarrow>
                 (dict_update found simulated_sensors, w2))
            else (found, w1)) of (all_sensors, w3) \<Rightarrow>
      case alloc_sensors all_sensors s of (refs, s1) \<Rightarrow>
      case alloc_sdict refs s1 of (d, s2) \<Rightarrow> (d, s2\<lparr>sensors := d\<rparr>, w3))"

section \<open>Telemetry refresh\<close>

text \<open>\<open>sensor_info.get('current', default)\<close> and \<open>sensor_info.get('method', '')\<close>.\<close>

definition get_current :: "sensor \<Rightarrow> real \<Rightarrow> real" where
  "get_current x dflt = (case current x of None \<Rightarrow> dflt | Some c \<Rightarrow> c)"

definition get_method :: "sensor \<Rightarrow> string" where
  "get_method x = (case smethod x of None \<Rightarrow> [] | Some m \<Rightarrow> m)"

text \<open>
  \<open>int(sensor_key.split('_')[-1])\<close> as a float factor; \<open>None\<close> is \<open>ValueError\<close>.
\<close>

definition key_index :: "string \<Rightarrow> real option" where
  "key_index sensor_key = map_option real_of_int (py_int (last_field sensor_key))"

text \<open>
  \<open>(memory.used / memory.total)\<close> of a fresh \<open>psutil.virtual_memory()\<close>: \<open>None\<close> when
  the query raises or the total is zero.
\<close>

definition memory_usage :: "world \<Rightarrow> real option \<times> world" where
  "memory_usage w =
     (case psutil_virtual_memory w of
        (None, w1) \<Rightarrow> (None, w1)
      | (Some memory, w1) \<Rightarrow>
          if mem_total memory = 0 then (None, w1)
          else (Some (real_of_int (mem_used memory) / real_of_int (mem_total memory)), w1))"

text \<open>
  The tests of the \<open>if\<close>/\<open>elif\<close> chain of \<open>_update_simulated_sensor\<close>, in the order
  of the source: the first test that holds decides which formula updates the sensor.
\<close>

datatype sensor_kind =
  CpuPackage | CpuCore | CpuThread | RamModule | RamController | RamDimm
  | GpuCore | GpuMemory | GpuVrm | GpuHotspot | GpuFan
  | Motherboard | Chipset | Southbridge | PcieSlot | Vrm | Storage | Psu | Other

definition kind_of :: "string \<Rightarrow> sensor_kind" where
  "kind_of sensor_key =
     (if sensor_key = ''cpu_package'' then CpuPackage
      else if contains ''cpu_core_'' sensor_key then CpuCore
      else if contains ''cpu_thread_'' sensor_key then CpuThread
      else if contains ''ram_module_'' sensor_key then RamModule
      else if sensor_key = ''ram_controller'' then RamController
      else if contains ''ram_dimm_'' sensor_key then RamDimm
      else if sensor_key = ''gpu_core'' then GpuCore
      else if sensor_key = ''gpu_memory'' then GpuMemory
      else if sensor_key = ''gpu_vrm'' then GpuVrm
      else if sensor_key = ''gpu_hotspot'' then GpuHotspot
      else if sensor_key = ''gpu_fan'' then GpuFan
      else if sensor_key = ''motherboard'' then Motherboard
      else if sensor_key = ''chipset'' then Chipset
      else if sensor_key = ''southbridge'' then Southbridge
      else if contains ''pcie_slot_'' sensor_key then PcieSlot
      else if sensor_key = ''vrm'' then Vrm
      else if contains ''storage_'' sensor_key then Storage
      else if sensor_key = ''psu'' then Psu
      else Other)"

text \<open>
  The branches of the chain for a sensor whose method contains \<open>Simulated\<close>. \<open>None\<close>
  stands for an exception that leaves the chain: a failing \<open>psutil\<close> query, a key
  index that does not parse, or, in the core branch, \<open>psutil.cpu_freq()\<close> returning
  \<open>None\<close> on its second call. The storage branch has its own \<open>try\<close>, whose \<open>except\<close>
  yields a value. Temperatures are floats; they are computed over the reals.
\<close>

definition simulated_formula :: "string \<Rightarrow> sensor \<Rightarrow> real \<Rightarrow> real \<Rightarrow> real \<Rightarrow> world
    \<Rightarrow> real option \<times> world" where
  "simulated_formula sensor_key sensor_info cpu_percent memory_percent time_factor w =
     (let gpu_activity = (memory_percent * 0.3 + cpu_percent * 0.4) / 100 in
      case kind_of sensor_key of
        CpuPackage \<Rightarrow>
          (case psutil_cpu_freq w of
             (None, w1) \<Rightarrow> (None, w1)
           | (Some cpu_freq, w1) \<Rightarrow>
               let freq_factor = (case cpu_freq of None \<Rightarrow> 0 | Some f \<Rightarrow> f / 3000 * 10);
                   load_factor = cpu_percent / 100 * 20
               in case uniform (- 0.8) 1.2 w1 of (u, w2) \<Rightarrow>
                    (Some (clamp 30 85
                             (35 + freq_factor + load_factor + (u + time_factor * 0.5))), w2))
      | CpuCore \<Rightarrow>
          (case key_index sensor_key of
             None \<Rightarrow> (None, w)
           | Some core_num \<Rightarrow>
               (case psutil_cpu_freq w of
                  (None, w1) \<Rightarrow> (None, w1)
                | (Some None, w1) \<Rightarrow>
                    (case uniform (- 2) 4 w1 of (u, w2) \<Rightarrow>
                       (Some (clamp 28 90 (35 + 0 + cpu_percent / 100 * 18
                                            + (u + core_num * 0.5))), w2))
                | (Some (Some f0), w1) \<Rightarrow>
                    (case psutil_cpu_freq w1 of
                       (Some (Some f), w2) \<Rightarrow>
                         (case uniform (- 2) 4 w2 of (u, w3) \<Rightarrow>
                            (Some (clamp 28 90 (35 + f / 3000 * 8 + cpu_percent / 100 * 18
                                                 + (u + core_num * 0.5))), w3))
                     | (_, w2) \<Rightarrow> (None, w2))))
      | CpuThread \<Rightarrow>
          (case key_index sensor_key of
             None \<Rightarrow> (None, w)
           | Some thread_num \<Rightarrow>
               (case uniform (- 1) 3 w of (u, w1) \<Rightarrow>
                  (Some (clamp 27 88 (35 + cpu_percent / 100 * 16 + (u + thread_num * 0.3))),
                   w1)))
      | RamModule \<Rightarrow>
          (case key_index sensor_key of
             None \<Rightarrow> (None, w)
           | Some module_num \<Rightarrow>
               (case memory_usage w of
                  (None, w1) \<Rightarrow> (None, w1)
                | (Some usage, w1) \<Rightarrow>
                    (case uniform (- 1.5) 2.5 w1 of (u, w2) \<Rightarrow>
                       (Some (clamp 20 60 (25 + usage * 15 + (u + module_num * 0.8))), w2))))
      | RamController \<Rightarrow>
          (case memory_usage w of
             (None, w1) \<Rightarrow> (None, w1)
           | (Some usage, w1) \<Rightarrow>
               (case uniform (- 1) 2 w1 of (u, w2) \<Rightarrow>
                  (Some (clamp 25 55 (30 + usage * 10 + u)), w2)))
      | RamDimm \<Rightarrow>
          (case key_index sensor_key of
             None \<Rightarrow> (None, w)
           | Some dimm_num \<Rightarrow>
               (case uniform (- 1) 3 w of (u, w1) \<Rightarrow>
                  (Some (clamp 22 50 (28 + (u + dimm_num * 0.5))), w1)))
      | GpuCore \<Rightarrow>
          (case uniform (- 0.8) 1.5 w of (u, w1) \<Rightarrow>
             (Some (clamp 25 80 (30 + gpu_activity * 25 + u)), w1))
      | GpuMemory \<Rightarrow>
          (case uniform (- 1.2) 2 w of (u, w1) \<Rightarrow>
             (Some (clamp 22 75 (28 + gpu_activity * 20 + u)), w1))
      | GpuVrm \<Rightarrow>
          (case uniform (- 1) 2.5 w of (u, w1) \<Rightarrow>
             (Some (clamp 25 80 (32 + gpu_activity * 25 + u)), w1))
      | GpuHotspot \<Rightarrow>
          (case uniform (- 0.8) 3 w of (u, w1) \<Rightarrow>
             (Some (clamp 30 85 (35 + gpu_activity * 30 + u)), w1))
      | GpuFan \<Rightarrow>
          (case uniform (- 1.5) 2 w of (u, w1) \<Rightarrow>
             (Some (clamp 20 60 (25 + gpu_activity * 10 + u)), w1))
      | Motherboard \<Rightarrow>
          (case uniform (- 0.3) 0.8 w of (u, w1) \<Rightarrow>
             (Some (clamp 25 40 (get_current sensor_info 28 + u)), w1))
      | Chipset \<Rightarrow>
          (case uniform (- 0.5) 1 w of (u, w1) \<Rightarrow>
             (Some (clamp 30 45 (get_current sensor_info 35 + u)), w1))
      | Southbridge \<Rightarrow>
          (case uniform (- 0.4) 0.8 w of (u, w1) \<Rightarrow>
             (Some (clamp 28 42 (get_current sensor_info 32 + u)), w1))
      | PcieSlot \<Rightarrow>
          (case key_index sensor_key of
             None \<Rightarrow> (None, w)
           | Some slot_num \<Rightarrow>
               (case uniform (- 0.5) 1.5 w of (u, w1) \<Rightarrow>
                  (Some (clamp 25 40 (30 + (u + slot_num * 0.3))), w1)))
      | Vrm \<Rightarrow>
          (case psutil_cpu_freq w of
             (None, w1) \<Rightarrow> (None, w1)
           | (Some cpu_freq, w1) \<Rightarrow>
               let freq_factor = (case cpu_freq of None \<Rightarrow> 0 | Some f \<Rightarrow> f / 3000 * 12);
                   load_factor = cpu_percent / 100 * 15
               in case uniform (- 1) 2 w1 of (u, w2) \<Rightarrow>
                    (Some (clamp 35 95 (40 + freq_factor + load_factor + u)), w2))
      | Storage \<Rightarrow>
          (case psutil_disk_io_counters w of
             (None, w1) \<Rightarrow>
               (case uniform (- 0.5) 1 w1 of (u, w2) \<Rightarrow>
                  (Some (clamp 25 55 (get_current sensor_info 32 + u)), w2))
           | (Some disk_io, w1) \<Rightarrow>
               let activity_temp =
                     (case disk_io of
                        None \<Rightarrow> 0
                      | Some (read_bytes, write_bytes) \<Rightarrow>
                          min (real_of_int (read_bytes + write_bytes) / 1024 ^ 3 / 100) 15)
               in if contains ''ssd'' sensor_key then
                    (case uniform (- 0.8) 1.2 w1 of (u, w2) \<Rightarrow>
                       (Some (clamp 20 45 (28 + activity_temp + u)), w2))
                  else if contains ''hdd'' sensor_key then
                    (case uniform (- 1) 2 w1 of (u, w2) \<Rightarrow>
                       (Some (clamp 30 55 (35 + activity_temp + u)), w2))
                  else if contains ''nvme'' sensor_key then
                    (case uniform (- 0.5) 1.5 w1 of (u, w2) \<Rightarrow>
                       (Some (clamp 25 50 (32 + activity_temp + u)), w2))
                  else
                    (case uniform (- 0.5) 1 w1 of (u, w2) \<Rightarrow>
                       (Some (clamp 25 55 (get_current sensor_info 32 + u)), w2)))
      | Psu \<Rightarrow>
          (let system_load = (cpu_percent + memory_percent) / 2
           in case uniform (- 0.8) 1.2 w of (u, w1) \<Rightarrow>
                (Some (clamp 30 65 (35 + system_load / 100 * 15 + u)), w1))
      | Other \<Rightarrow>
          (case uniform (- 0.5) 1 w of (u, w1) \<Rightarrow>
             (Some (clamp 20 80 (get_current sensor_info 40 + u)), w1)))"

text \<open>
  \<open>_update_simulated_sensor\<close>. Its result type is \<open>Optional[float]\<close>; every path
  returns a float. The \<open>except\<close> branch returns the stored value as it is.
\<close>

definition update_simulated_sensor :: "string \<Rightarrow> sensor \<Rightarrow> state \<Rightarrow> world
    \<Rightarrow> real option \<times> state \<times> world" where
  "update_simulated_sensor sensor_key sensor_info s w =
     (case import_psutil w of (ok, w1) \<Rightarrow>
        if \<not> ok then (Some (get_current sensor_info 40), s, w1)
        else
          case get_cached_cpu_percent s w1 of (cpu_percent, s1, w2) \<Rightarrow>
          case get_cached_memory_percent s1 w2 of (memory_percent, s2, w3) \<Rightarrow>
          case time_time w3 of (current_time, w4) \<Rightarrow>
          let time_factor = (current_time - 10 * of_int \<lfloor>current_time / 10\<rfloor>) / 10
          in if \<not> contains ''Simulated'' (get_method sensor_info) then
               (case uniform (- 0.5) 0.5 w4 of (variation, w5) \<Rightarrow>
                  (Some (clamp 20 100 (get_current sensor_info 40 + variation)), s2, w5))
             else
               (case simulated_formula sensor_key sensor_info cpu_percent memory_percent
                       time_factor w4 of
                  (None, w5) \<Rightarrow> (Some (get_current sensor_info 40), s2, w5)
                | (Some new_temp, w5) \<Rightarrow> (Some new_temp, s2, w5)))"

text \<open>
  The loop of \<open>get_updated_sensors\<close> over \<open>self.sensors.items()\<close>. \<open>sensor_info.copy()\<close>
  allocates a new object with the fields of the stored one, and the new temperature
  is written to the copy. \<open>updated_sensors\<close> is local until it is returned; the loop
  keeps it as a value. Nothing inside the loop's \<open>try\<close> raises, so its \<open>except\<close>
  branch has no counterpart here.
\<close>

fun update_loop :: "(string \<times> addr) list \<Rightarrow> (string \<times> addr) list \<Rightarrow> state \<Rightarrow> world
    \<Rightarrow> (string \<times> addr) list \<times> state \<times> world" where
  "update_loop [] updated_sensors s w = (updated_sensors, s, w)"
| "update_loop ((sensor_key, a) # rest) updated_sensors s w =
     (let sensor_info = sensor_at s a
      in case update_simulated_sensor sensor_key sensor_info s w of
           (Some updated_temp, s1, w1) \<Rightarrow>
             (case alloc_sensor sensor_info s1 of (c, s2) \<Rightarrow>
                update_loop rest (dict_set sensor_key c updated_sensors)
                  (s2\<lparr>sensor_at := (sensor_at s2)
                        (c := (sensor_at s2 c)\<lparr>current := Some updated_temp\<rparr>)\<rparr>) w1)
         | (None, s1, w1) \<Rightarrow>
             (case uniform (- 0.5) 0.5 w1 of (variation, w2) \<Rightarrow>
              case alloc_sensor sensor_info s1 of (c, s2) \<Rightarrow>
                update_loop rest (dict_set sensor_key c updated_sensors)
                  (s2\<lparr>sensor_at := (sensor_at s2)
                        (c := (sensor_at s2 c)
                           \<lparr>current := Some (clamp 20 100
                                               (get_current sensor_info 30 + variation))\<rparr>)\<rparr>)
                  w2))"

text \<open>\<open>get_updated_sensors\<close> returns a reference to the new map.\<close>

definition get_updated_sensors :: "state \<Rightarrow> world \<Rightarrow> addr \<times> state \<times> world" where
  "get_updated_sensors s w =
     (case update_loop (sdict_at s (sensors s)) [] s w of (updated_sensors, s1, w1) \<Rightarrow>
      case alloc_sdict updated_sensors s1 of (d, s2) \<Rightarrow> (d, s2, w1))"

text \<open>The content of a sensor map in a state: each key with its sensor dict.\<close>

definition sensor_items :: "state \<Rightarrow> addr \<Rightarrow> (string \<times> sensor) list" where
  "sensor_items s d = map (\<lambda>kv. (fst kv, sensor_at s (snd kv))) (sdict_at s d)"

section \<open>Fan status model\<close>

definition initialize_fan_status :: "state \<Rightarrow> state" where
  "initialize_fan_status s =
     (case alloc_fan \<lparr>current_rpm = 1200, current_speed = 60, max_rpm = 3000,
                      status = ''Normal''\<rparr> s of (a1, s1) \<Rightarrow>
      case alloc_fan \<lparr>current_rpm = 1000, current_speed = 50, max_rpm = 3500,
                      status = ''Normal''\<rparr> s1 of (a2, s2) \<Rightarrow>
      case alloc_fan \<lparr>current_rpm = 800, current_speed = 40, max_rpm = 2000,
                      status = ''Normal''\<rparr> s2 of (a3, s3) \<Rightarrow>
      case alloc_fan \<lparr>current_rpm = 750, current_speed = 38, max_rpm = 2000,
                      status = ''Normal''\<rparr> s3 of (a4, s4) \<Rightarrow>
      case alloc_fan \<lparr>current_rpm = 700, current_speed = 35, max_rpm = 2000,
                      status = ''Normal''\<rparr> s4 of (a5, s5) \<Rightarrow>
      case alloc_fdict [(''cpu_fan'', a1), (''gpu_fan'', a2), (''case_fan_1'', a3),
                        (''case_fan_2'', a4), (''case_fan_3'', a5)] s5 of (d, s6) \<Rightarrow>
      s6\<lparr>fan_status := d\<rparr>)"

text \<open>
  The \<open>if\<close>/\<open>elif\<close>/\<open>else\<close> on \<open>fan_id\<close> inside the loop of
  \<open>_update_fan_status_real_time\<close>: the RPM of the fan's variation model before it is
  clamped. RPM and percent are floats truncated by \<open>int\<close>; they are computed over the
  reals.
\<close>

definition fan_variation :: "string \<Rightarrow> real \<Rightarrow> world \<Rightarrow> int \<times> world" where
  "fan_variation fan_id base_rpm w =
     (if fan_id = ''cpu_fan'' then
        (case uniform 0.3 0.8 w of (load_variation, w1) \<Rightarrow>
         case uniform (- 100) 200 w1 of (rpm_variation, w2) \<Rightarrow>
           (py_trunc (base_rpm * load_variation + rpm_variation), w2))
      else if fan_id = ''gpu_fan'' then
        (case uniform 0.2 0.9 w of (gpu_load, w1) \<Rightarrow>
         case uniform (- 50) 150 w1 of (v, w2) \<Rightarrow>
           (py_trunc (base_rpm * gpu_load + v), w2))
      else
        (case uniform 0.8 1.2 w of (case_variation, w1) \<Rightarrow>
         case uniform (- 30) 50 w1 of (v, w2) \<Rightarrow>
           (py_trunc (base_rpm * case_variation + v), w2)))"

text \<open>
  The loop over \<open>self.fan_status.items()\<close>. Each item carries the address of its fan
  dict, which is also the object that \<open>self.fan_status[fan_id]\<close> denotes. Every branch
  derives the percent as \<open>int((current_rpm / max_rpm) * 100)\<close>; the division raises
  \<open>ZeroDivisionError\<close> when \<open>max_rpm\<close> is zero, and the surrounding \<open>try\<close> then
  abandons the loop and keeps what was written before.
\<close>

fun update_fans :: "(string \<times> addr) list \<Rightarrow> state \<Rightarrow> world \<Rightarrow> state \<times> world" where
  "update_fans [] s w = (s, w)"
| "update_fans ((fan_id, a) # rest) s w =
     (let fan_info = fan_at s a;
          base_rpm = real_of_int (max_rpm fan_info) * 0.4
      in case fan_variation fan_id base_rpm w of (rpm0, w') \<Rightarrow>
           if max_rpm fan_info = 0 then (s, w')
           else
             let speed0 = py_trunc (real_of_int rpm0 / real_of_int (max_rpm fan_info) * 100);
                 rpm = clamp 200 (max_rpm fan_info) rpm0;
                 speed = clamp 10 100 speed0;
                 label = (if speed > 80 then ''High''
                          else if speed > 60 then ''Medium'' else ''Normal'')
             in update_fans rest
                  (s\<lparr>fan_at := (fan_at s)
                       (a := fan_info\<lparr>current_rpm := rpm, current_speed := speed,
                                       status := label\<rparr>)\<rparr>) w')"

definition update_fan_status_real_time :: "state \<Rightarrow> world \<Rightarrow> state \<times> world" where
  "update_fan_status_real_time s w =
     (case time_time w of (current_time, w1) \<Rightarrow>
        update_fans (fdict_at s (fan_status s)) s w1)"

text \<open>\<open>get_fan_status\<close> returns \<open>self.fan_status\<close>: a reference.\<close>

definition get_fan_status :: "state \<Rightarrow> world \<Rightarrow> addr \<times> state \<times> world" where
  "get_fan_status s w =
     (let s1 = (if fdict_at s (fan_status s) = [] then initialize_fan_status s else s)
      in case update_fan_status_real_time s1 w of (s2, w2) \<Rightarrow> (fan_status s2, s2, w2))"

text \<open>
  \<open>set_fan_speed\<close> stores the percent, then the RPM. When the RPM expression raises,
  the \<open>except\<close> branch returns \<open>False\<close> with the percent already stored.
\<close>

definition set_fan_speed :: "string \<Rightarrow> int \<Rightarrow> state \<Rightarrow> bool \<times> state" where
  "set_fan_speed fan_id speed_percent s =
     (case map_of (fdict_at s (fan_status s)) fan_id of
        None \<Rightarrow> (False, s)
      | Some a \<Rightarrow>
          let s1 = s\<lparr>fan_at := (fan_at s)(a := (fan_at s a)\<lparr>current_speed := speed_percent\<rparr>)\<rparr>
          in (case rpm_of_percent speed_percent (max_rpm (fan_at s1 a)) of
                None \<Rightarrow> (False, s1)
              | Some rpm \<Rightarrow>
                  (True, s1\<lparr>fan_at := (fan_at s1)(a := (fan_at s1 a)\<lparr>current_rpm := rpm\<rparr>)\<rparr>)))"

text \<open>\<open>set_all_fans_speed\<close>: one \<open>set_fan_speed\<close> per key, results by key.\<close>

fun set_all_loop :: "string list \<Rightarrow> int \<Rightarrow> state \<Rightarrow> (string \<times> bool) list \<Rightarrow> (string \<times> bool) list \<times> state" where
  "set_all_loop [] p s results = (results, s)"
| "set_all_loop (fan_id # ks) p s results =
     (case set_fan_speed fan_id p s of (ok, s') \<Rightarrow>
        set_all_loop ks p s' (dict_set fan_id ok results))"

definition set_all_fans_speed :: "int \<Rightarrow> state \<Rightarrow> (string \<times> bool) list \<times> state" where
  "set_all_fans_speed p s = set_all_loop (map fst (fdict_at s (fan_status s))) p s []"

text \<open>The fan dict that a fan id denotes in a state, for stating properties.\<close>

definition fan_of :: "state \<Rightarrow> string \<Rightarrow> fan option" where
  "fan_of s fan_id = map_option (fan_at s) (map_of (fdict_at s (fan_status s)) fan_id)"

section \<open>Reference notions and concrete inputs\<close>

text \<open>
  Python's \<open>round\<close> on a real: to the nearest integer, ties to even. It is the rounding
  that the specification names for the RPM of \<open>set_fan_speed\<close>.
\<close>

definition py_round :: "real \<Rightarrow> int" where
  "py_round x =
     (let f = \<lfloor>x\<rfloor>; d = x - of_int f
      in if d < 1 / 2 then f else if 1 / 2 < d then f + 1 else if even f then f else f + 1)"

text \<open>The status that the specification assigns to a speed percent.\<close>

definition status_of_speed :: "int \<Rightarrow> string" where
  "status_of_speed v = (if v > 80 then ''High'' else if v > 60 then ''Medium'' else ''Normal'')"

text \<open>What a refresh tick establishes for a fan.\<close>

definition fan_ok :: "fan \<Rightarrow> bool" where
  "fan_ok f =
     (status f = status_of_speed (current_speed f) \<and>
      200 \<le> current_rpm f \<and> current_rpm f \<le> max_rpm f \<and>
      10 \<le> current_speed f \<and> current_speed f \<le> 100)"

text \<open>The monitor with the five fans of \<open>_initialize_fan_status\<close>.\<close>

definition boot_fans :: state where
  "boot_fans = initialize_fan_status fresh_monitor"

text \<open>An integer too large for a double.\<close>

definition beyond_double :: int where
  "beyond_double = 2 ^ 1024"

text \<open>
  A world in which every query succeeds with the same answer, the clock stands at \<open>t\<close>
  and the random generator yields one half.
\<close>

definition steady_world :: "real \<Rightarrow> world" where
  "steady_world t =
     \<lparr>log = [], time_oracle = (\<lambda>n. t), random_oracle = (\<lambda>n. 1 / 2),
      import_psutil_oracle = (\<lambda>n. True),
      cpu_percent_oracle = (\<lambda>n. Some 50),
      virtual_memory_oracle =
        (\<lambda>n. Some \<lparr>mem_total = 17179869184, mem_used = 8589934592, mem_percent = 50\<rparr>),
      cpu_freq_oracle = (\<lambda>n. Some (Some 3000)),
      cpu_count_oracle = (\<lambda>n. Some (Some 2)),
      disk_io_oracle = (\<lambda>n. Some (Some (0, 0))),
      disk_partitions_oracle = (\<lambda>n. Some [''C:'']),
      processor_oracle = (\<lambda>n. Some ''x86''),
      gpu_name_oracle = (\<lambda>n. None)\<rparr>"

text \<open>
  Two states with the same objects and references, and two worlds with the same
  oracles, the second with a log at least as long: what a cache accessor may change
  is the cache fields and the log.
\<close>

definition same_store :: "state \<Rightarrow> state \<Rightarrow> bool" where
  "same_store s s' =
     (sensor_at s' = sensor_at s \<and> sdict_at s' = sdict_at s \<and> fan_at s' = fan_at s \<and>
      fdict_at s' = fdict_at s \<and> next_addr s' = next_addr s \<and> sensors s' = sensors s \<and>
      fan_status s' = fan_status s \<and> cache_duration s' = cache_duration s)"

definition same_oracles :: "world \<Rightarrow> world \<Rightarrow> bool" where
  "same_oracles w w' =
     (time_oracle w' = time_oracle w \<and> random_oracle w' = random_oracle w \<and>
      import_psutil_oracle w' = import_psutil_oracle w \<and>
      cpu_percent_oracle w' = cpu_percent_oracle w \<and>
      virtual_memory_oracle w' = virtual_memory_oracle w \<and>
      cpu_freq_oracle w' = cpu_freq_oracle w \<and> cpu_count_oracle w' = cpu_count_oracle w \<and>
      disk_io_oracle w' = disk_io_oracle w \<and>
      disk_partitions_oracle w' = disk_partitions_oracle w \<and>
      processor_oracle w' = processor_oracle w \<and> gpu_name_oracle w' = gpu_name_oracle w \<and>
      length (log w) \<le> length (log w'))"

text \<open>
  The frame of the sensor objects: every sensor dict and sensor map allocated in \<open>s\<close>
  is the same in \<open>s'\<close>, and \<open>self.sensors\<close> refers to the same map.
\<close>

definition sensor_frame :: "state \<Rightarrow> state \<Rightarrow> bool" where
  "sensor_frame s s' =
     (next_addr s \<le> next_addr s' \<and> sensors s' = sensors s \<and>
      (\<forall>a < next_addr s. sensor_at s' a = sensor_at s a \<and> sdict_at s' a = sdict_at s a))"

text \<open>
  The map that \<open>self.sensors\<close> refers to, and the sensor dicts in it, are allocated
  objects.
\<close>

definition sensors_allocated :: "state \<Rightarrow> bool" where
  "sensors_allocated s =
     (sensors s < next_addr s \<and> (\<forall>kv \<in> set (sdict_at s (sensors s)). snd kv < next_addr s))"

text \<open>
  The calls that the shell makes after construction, each refresh with the world it
  runs in, and the state after a sequence of them.
\<close>

datatype call = GetUpdatedSensors world | GetFanStatus world | SetFanSpeed string int

fun run_call :: "call \<Rightarrow> state \<Rightarrow> state" where
  "run_call (GetUpdatedSensors w) s = fst (snd (get_updated_sensors s w))"
| "run_call (GetFanStatus w) s = fst (snd (get_fan_status s w))"
| "run_call (SetFanSpeed fan_id p) s = snd (set_fan_speed fan_id p s)"

fun run_calls :: "call list \<Rightarrow> state \<Rightarrow> state" where
  "run_calls [] s = s"
| "run_calls (c # cs) s = run_calls cs (run_call c s)"

text \<open>A caller's \<open>clear()\<close> on a fan map it holds a reference to.\<close>

definition caller_clears :: "addr \<Rightarrow> state \<Rightarrow> state" where
  "caller_clears d s = s\<lparr>fdict_at := (fdict_at s)(d := [])\<rparr>"

text \<open>
  A monitor whose sensor map holds a simulated GPU core and hot spot, with both cache
  entries taken at time 1000 under full load. The other sensors of a generated set
  are left out: each would add one round to the loop of a refresh.
\<close>

definition gpu_monitor :: state where
  "gpu_monitor =
     fresh_monitor
       \<lparr>sensor_at := (sensor_at fresh_monitor)
          (2 := simulated ''Graphics Card Core'' ''GPU'' 47 ''Simulated (Activity-based)'',
           3 := simulated ''Graphics Card Hot Spot'' ''GPU'' 55 ''Simulated (GPU Hot Spot)''),
        sdict_at := (sdict_at fresh_monitor)(4 := [(''gpu_core'', 2), (''gpu_hotspot'', 3)]),
        next_addr := 5, sensors := 4,
        last_cpu_check := 1000, last_memory_check := 1000,
        cached_cpu_percent := 100, cached_memory_percent := 100\<rparr>"

section \<open>Properties of the binary64 model\<close>

lemmas prim_defs = time_time_def uniform_def import_psutil_def psutil_cpu_percent_def
  psutil_virtual_memory_def psutil_cpu_freq_def psutil_cpu_count_def
  psutil_disk_io_counters_def psutil_disk_partitions_def platform_processor_def
  gpu_name_query_def called_def

lemmas alloc_defs = alloc_fan_def alloc_fdict_def alloc_sensor_def alloc_sdict_def

lemmas round_defs = signed_round_def round53_def scale2_def rne_div_def Let_def
  bit_length.simps

lemma bit_length_bound: "n < 2 ^ k \<Longrightarrow> bit_length n \<le> k"
proof (induction k arbitrary: n)
  case 0
  then show ?case by (simp add: bit_length.simps)
next
  case (Suc k)
  have "n div 2 < 2 ^ k" using Suc.prems by auto
  then have "bit_length (n div 2) \<le> k" by (rule Suc.IH)
  then show ?case by (subst bit_length.simps) simp
qed

lemma rne_div_bounds:
  assumes "0 \<le> n" "0 < d"
  shows "0 \<le> rne_div n d \<and> rne_div n d \<le> n + 1"
proof -
  have q: "0 \<le> n div d" using assms by (simp add: pos_imp_zdiv_nonneg_iff)
  have "n div d \<le> n"
  proof (cases "n = 0")
    case True
    then show ?thesis by simp
  next
    case False
    then show ?thesis using assms by (intro int_div_le_self) simp
  qed
  with q show ?thesis by (auto simp: rne_div_def Let_def)
qed

lemma round53_bounds:
  assumes n: "0 < n" "n < 2 ^ K" and d: "0 < d" "d < 2 ^ Kd"
    and r: "round53 n d = (m, e)"
  shows "0 \<le> m \<and> m < 2 ^ (K + Kd + 54) \<and> e \<le> int K - 52 \<and> - int Kd - 53 \<le> e"
proof -
  have bn: "bit_length (nat n) \<le> K" using n by (intro bit_length_bound) (simp add: nat_less_iff)
  have bd: "bit_length (nat d) \<le> Kd" using d by (intro bit_length_bound) (simp add: nat_less_iff)
  define t where "t = int (bit_length (nat n)) - int (bit_length (nat d))"
  have e_cases: "e = t - 52 \<or> e = t - 53"
    using r by (auto simp: round53_def Let_def t_def split: prod.splits if_splits)
  have t_hi: "t \<le> int K" and t_lo: "- int Kd \<le> t" using bn bd by (auto simp: t_def)
  have m_def: "m = rne_div (fst (scale2 n d e)) (snd (scale2 n d e))"
    using r by (auto simp: round53_def Let_def t_def split: prod.splits if_splits)
  have e_hi: "e \<le> int K - 52" and e_lo: "- int Kd - 53 \<le> e"
    using e_cases t_hi t_lo by auto
  have sc: "0 \<le> fst (scale2 n d e) \<and> 0 < snd (scale2 n d e) \<and> fst (scale2 n d e) \<le> n * 2 ^ (Kd + 53)"
  proof (cases "0 \<le> e")
    case True
    have "n * 1 \<le> n * 2 ^ (Kd + 53)" using n(1) by (intro mult_left_mono) auto
    then show ?thesis using True n d by (simp add: scale2_def)
  next
    case False
    then have "nat (- e) \<le> Kd + 53" using e_lo by simp
    then have "(2::int) ^ nat (- e) \<le> 2 ^ (Kd + 53)" by (intro power_increasing) auto
    then have "n * 2 ^ nat (- e) \<le> n * 2 ^ (Kd + 53)" using n(1) by (intro mult_left_mono) auto
    then show ?thesis using False n d by (simp add: scale2_def)
  qed
  have mb: "0 \<le> m \<and> m \<le> fst (scale2 n d e) + 1"
    unfolding m_def using sc by (intro rne_div_bounds) auto
  define X :: int where "X = 2 ^ (Kd + 53)"
  have Xpos: "0 < X" by (simp add: X_def)
  have "n * X < 2 ^ K * X" using n Xpos by (intro mult_strict_right_mono) auto
  then have "n * X + 1 \<le> 2 ^ K * X" by linarith
  also have "2 ^ K * X = (2::int) ^ (K + Kd + 53)" by (simp add: X_def power_add)
  also have "\<dots> < (2::int) ^ (K + Kd + 54)" by (intro power_strict_increasing) auto
  finally have "n * X + 1 < 2 ^ (K + Kd + 54)" .
  with mb sc have "m < 2 ^ (K + Kd + 54)" unfolding X_def by linarith
  with mb e_hi e_lo show ?thesis by simp
qed


lemma signed_round_bounds:
  assumes sg: "\<bar>sg\<bar> \<le> 1" and n: "0 \<le> n" "n < 2 ^ K" and d: "0 < d" "d < 2 ^ Kd"
    and r: "signed_round sg n d = (m, e)"
  shows "\<bar>m\<bar> < 2 ^ (K + Kd + 54) \<and> e \<le> int K \<and> - int Kd - 53 \<le> e"
proof (cases "n = 0")
  case True
  then show ?thesis using r by (auto simp: signed_round_def)
next
  case False
  obtain m0 e0 where r0: "round53 n d = (m0, e0)" by (cases "round53 n d")
  have b: "0 \<le> m0 \<and> m0 < 2 ^ (K + Kd + 54) \<and> e0 \<le> int K - 52 \<and> - int Kd - 53 \<le> e0"
    using False n d r0 by (intro round53_bounds) auto
  have me: "m = sg * m0" "e = e0" using r r0 False by (auto simp: signed_round_def)
  have "\<bar>sg * m0\<bar> \<le> 1 * m0" unfolding abs_mult using sg b by (intro mult_mono) auto
  then show ?thesis using b me by auto
qed

lemma no_overflow:
  assumes "\<bar>m\<bar> < 2 ^ J" "e \<le> int E" "J + E \<le> 1024"
  shows "\<not> overflows (m, e)"
proof -
  have "bit_length (nat \<bar>m\<bar>) \<le> J" using assms(1) by (intro bit_length_bound) (simp add: nat_less_iff)
  then show ?thesis using assms(2,3) by (simp add: overflows_def)
qed

lemma sgn_abs_le: "\<bar>sgn (x::int)\<bar> \<le> 1"
  by (simp add: sgn_if)

lemma rpm_of_percent_defined:
  assumes p: "\<bar>p\<bar> < 2 ^ 53" and M: "\<bar>M\<bar> < 2 ^ 53"
  shows "\<exists>r. rpm_of_percent p M = Some r"
proof -
  obtain mq eq where q: "fdiv (p, 0) (100, 0) = (mq, eq)" by (cases "fdiv (p, 0) (100, 0)")
  have q': "signed_round (sgn p) \<bar>p\<bar> 100 = (mq, eq)" using q by (simp add: fdiv_def)
  have qb: "\<bar>mq\<bar> < 2 ^ (53 + 7 + 54) \<and> eq \<le> int 53 \<and> - int 7 - 53 \<le> eq"
    using p by (intro signed_round_bounds[OF sgn_abs_le _ _ _ _ q']) auto
  define n where "n = \<bar>mq * M\<bar> * 2 ^ nat eq"
  define d :: int where "d = 2 ^ nat (- eq)"
  obtain m e where r: "signed_round (sgn mq * sgn M) n d = (m, e)"
    by (cases "signed_round (sgn mq * sgn M) n d")
  have "\<bar>mq * M\<bar> < 2 ^ 114 * 2 ^ 53"
    unfolding abs_mult using qb M by (intro mult_strict_mono) auto
  moreover have "(2::int) ^ nat eq \<le> 2 ^ 53" using qb by (intro power_increasing) auto
  ultimately have "n < (2 ^ 114 * 2 ^ 53) * 2 ^ 53"
    unfolding n_def by (intro mult_less_le_imp_less) auto
  then have nb: "n < 2 ^ 220" by simp
  have n0: "0 \<le> n" by (simp add: n_def)
  have "d \<le> 2 ^ 60" unfolding d_def using qb by (intro power_increasing) auto
  then have db: "d < 2 ^ 61" by simp
  have d0: "0 < d" by (simp add: d_def)
  have sg: "\<bar>sgn mq * sgn M\<bar> \<le> 1" by (simp add: sgn_if)
  have rb: "\<bar>m\<bar> < 2 ^ (220 + 61 + 54) \<and> e \<le> int 220 \<and> - int 61 - 53 \<le> e"
    by (rule signed_round_bounds[OF sg n0 nb d0 db r])
  have nov: "\<not> overflows (m, e)"
    using rb by (intro no_overflow[where J = "220 + 61 + 54" and E = 220]) auto
  have "fmul (mq, eq) (M, 0) = Some (m, e)"
    using r nov by (simp add: fmul_def n_def d_def Let_def)
  then show ?thesis using p M q by (simp add: rpm_of_percent_def float_of_int_def)
qed

text \<open>The RPM expression at the inputs used below.\<close>

lemma rpm_29: "rpm_of_percent 29 3000 = Some 869"
proof -
  have q: "fdiv (29, 0) (100, 0) = (5224175567749775, - 54)"
    by (simp add: fdiv_def round_defs)
  have r: "fmul (5224175567749775, - 54) (3000, 0) = Some (7652600929320959, - 43)"
    by (simp add: fmul_def overflows_def round_defs)
  show ?thesis
    by (simp add: rpm_of_percent_def float_of_int_def q r int_of_double_def)
qed

lemma rpm_75: "rpm_of_percent 75 3000 = Some 2250"
proof -
  have q: "fdiv (75, 0) (100, 0) = (6755399441055744, - 53)"
    by (simp add: fdiv_def round_defs)
  have r: "fmul (6755399441055744, - 53) (3000, 0) = Some (4947802324992000, - 41)"
    by (simp add: fmul_def overflows_def round_defs)
  show ?thesis
    by (simp add: rpm_of_percent_def float_of_int_def q r int_of_double_def)
qed

lemma rpm_90: "rpm_of_percent 90 3000 = Some 2700"
proof -
  have q: "fdiv (90, 0) (100, 0) = (8106479329266893, - 53)"
    by (simp add: fdiv_def round_defs)
  have r: "fmul (8106479329266893, - 53) (3000, 0) = Some (5937362789990400, - 41)"
    by (simp add: fmul_def overflows_def round_defs)
  show ?thesis
    by (simp add: rpm_of_percent_def float_of_int_def q r int_of_double_def)
qed

lemma rpm_150: "rpm_of_percent 150 3000 = Some 4500"
proof -
  have q: "fdiv (150, 0) (100, 0) = (6755399441055744, - 52)"
    by (simp add: fdiv_def round_defs)
  have r: "fmul (6755399441055744, - 52) (3000, 0) = Some (4947802324992000, - 40)"
    by (simp add: fmul_def overflows_def round_defs)
  show ?thesis
    by (simp add: rpm_of_percent_def float_of_int_def q r int_of_double_def)
qed

lemma rpm_beyond_double: "rpm_of_percent beyond_double 3000 = None"
  by (simp add: beyond_double_def rpm_of_percent_def float_of_int_def overflows_def round_defs)

section \<open>Properties of the fan status model\<close>

lemma boot_fdict:
  "fdict_at boot_fans (fan_status boot_fans) =
     [(''cpu_fan'', 2), (''gpu_fan'', 3), (''case_fan_1'', 4), (''case_fan_2'', 5),
      (''case_fan_3'', 6)]"
  by (simp add: boot_fans_def initialize_fan_status_def alloc_defs fresh_monitor_def)

lemma boot_cpu_fan:
  "fan_at boot_fans 2 =
     \<lparr>current_rpm = 1200, current_speed = 60, max_rpm = 3000, status = ''Normal''\<rparr>"
  by (simp add: boot_fans_def initialize_fan_status_def alloc_defs fresh_monitor_def)

text \<open>
  Claim C3, as stated, fails: the specification has \<open>set_fan_speed\<close> store
  \<open>round(percent / 100 * max_rpm)\<close>, but the code truncates the float product. For the
  CPU fan at 29 percent the product is \<open>869.99999999999989\<close>, stored as 869, where
  rounding gives 870.
\<close>

theorem set_fan_speed_truncates:
  "map_option current_rpm
     (fan_of (snd (set_fan_speed ''cpu_fan'' 29 boot_fans)) ''cpu_fan'') = Some 869
   \<and> py_round (29 / 100 * 3000) = 870"
  by (simp add: fan_of_def set_fan_speed_def boot_fdict boot_cpu_fan rpm_29 py_round_def Let_def)

text \<open>
  Claim C3, amended. For an id that is not in the fan map, \<open>set_fan_speed\<close> returns
  false and leaves the whole state unchanged. For an id that is in the map it stores
  the percent as \<open>current_speed\<close>; when the expression
  \<open>int((percent / 100.0) * max_rpm)\<close> evaluates to \<open>r\<close> it returns true and stores \<open>r\<close>
  as \<open>current_rpm\<close>, changing nothing else, and the expression does evaluate whenever
  percent and \<open>max_rpm\<close> are below \<open>2 ^ 53\<close> in magnitude; when the expression raises
  \<open>OverflowError\<close> it returns false with only \<open>current_speed\<close> changed. For the CPU fan
  at 75 percent the stored RPM is 2250.
\<close>

theorem set_fan_speed_effect:
  "(map_of (fdict_at s0 (fan_status s0)) unknown_id = None \<longrightarrow>
      set_fan_speed unknown_id p0 s0 = (False, s0))
   \<and> (map_of (fdict_at s (fan_status s)) fan_id = Some a \<and>
        rpm_of_percent p (max_rpm (fan_at s a)) = Some r \<longrightarrow>
      set_fan_speed fan_id p s =
        (True, s\<lparr>fan_at := (fan_at s)
                  (a := (fan_at s a)\<lparr>current_speed := p, current_rpm := r\<rparr>)\<rparr>))
   \<and> (map_of (fdict_at s (fan_status s)) fan_id = Some a \<and>
        \<bar>p\<bar> < 2 ^ 53 \<and> \<bar>max_rpm (fan_at s a)\<bar> < 2 ^ 53 \<longrightarrow>
      fst (set_fan_speed fan_id p s))
   \<and> (map_of (fdict_at s1 (fan_status s1)) id1 = Some a1 \<and>
        rpm_of_percent p1 (max_rpm (fan_at s1 a1)) = None \<longrightarrow>
      set_fan_speed id1 p1 s1 =
        (False, s1\<lparr>fan_at := (fan_at s1)(a1 := (fan_at s1 a1)\<lparr>current_speed := p1\<rparr>)\<rparr>))
   \<and> rpm_of_percent 75 3000 = Some 2250"
proof (intro conjI impI)
  show "rpm_of_percent 75 3000 = Some 2250" by (rule rpm_75)
next
  assume "map_of (fdict_at s0 (fan_status s0)) unknown_id = None"
  then show "set_fan_speed unknown_id p0 s0 = (False, s0)"
    by (simp add: set_fan_speed_def)
next
  assume "map_of (fdict_at s (fan_status s)) fan_id = Some a \<and>
        rpm_of_percent p (max_rpm (fan_at s a)) = Some r"
  then show "set_fan_speed fan_id p s =
        (True, s\<lparr>fan_at := (fan_at s)
                  (a := (fan_at s a)\<lparr>current_speed := p, current_rpm := r\<rparr>)\<rparr>)"
    by (simp add: set_fan_speed_def Let_def)
next
  assume present: "map_of (fdict_at s (fan_status s)) fan_id = Some a \<and>
        \<bar>p\<bar> < 2 ^ 53 \<and> \<bar>max_rpm (fan_at s a)\<bar> < 2 ^ 53"
  then obtain r where "rpm_of_percent p (max_rpm (fan_at s a)) = Some r"
    using rpm_of_percent_defined by blast
  with present show "fst (set_fan_speed fan_id p s)"
    by (simp add: set_fan_speed_def Let_def)
next
  assume "map_of (fdict_at s1 (fan_status s1)) id1 = Some a1 \<and>
        rpm_of_percent p1 (max_rpm (fan_at s1 a1)) = None"
  then show "set_fan_speed id1 p1 s1 =
        (False, s1\<lparr>fan_at := (fan_at s1)(a1 := (fan_at s1 a1)\<lparr>current_speed := p1\<rparr>)\<rparr>)"
    by (simp add: set_fan_speed_def Let_def)
qed

theorem set_fan_speed_effect_witness:
  "map_of (fdict_at boot_fans (fan_status boot_fans)) ''nonexistent'' = None
   \<and> set_fan_speed ''nonexistent'' 50 boot_fans = (False, boot_fans)
   \<and> map_of (fdict_at boot_fans (fan_status boot_fans)) ''cpu_fan'' = Some 2
   \<and> rpm_of_percent 75 (max_rpm (fan_at boot_fans 2)) = Some 2250
   \<and> \<bar>75 :: int\<bar> < 2 ^ 53 \<and> \<bar>max_rpm (fan_at boot_fans 2)\<bar> < 2 ^ 53
   \<and> set_fan_speed ''cpu_fan'' 75 boot_fans =
        (True, boot_fans\<lparr>fan_at := (fan_at boot_fans)
           (2 := (fan_at boot_fans 2)\<lparr>current_speed := 75, current_rpm := 2250\<rparr>)\<rparr>)
   \<and> fst (set_fan_speed ''cpu_fan'' 75 boot_fans)
   \<and> rpm_of_percent beyond_double (max_rpm (fan_at boot_fans 2)) = None
   \<and> set_fan_speed ''cpu_fan'' beyond_double boot_fans =
        (False, boot_fans\<lparr>fan_at := (fan_at boot_fans)
           (2 := (fan_at boot_fans 2)\<lparr>current_speed := beyond_double\<rparr>)\<rparr>)"
  using set_fan_speed_effect [of boot_fans "''nonexistent''" 50 boot_fans "''cpu_fan''" 2 75 2250
      boot_fans "''cpu_fan''" 2 beyond_double]
  by (simp add: boot_fdict boot_cpu_fan rpm_75 rpm_beyond_double)

text \<open>
  The refresh tick keeps \<open>max_rpm\<close> and leaves every fan it visits with a status that
  agrees with its percent, an RPM within \<open>[200, max_rpm]\<close> and a percent within
  \<open>[10, 100]\<close>, provided that no visited fan has a \<open>max_rpm\<close> below 200.
\<close>

lemma update_fans_max_rpm:
  "max_rpm (fan_at (fst (update_fans fans s w)) b) = max_rpm (fan_at s b)"
proof (induction fans arbitrary: s w)
  case Nil
  then show ?case by simp
next
  case (Cons x fans)
  obtain k a where x: "x = (k, a)" by (cases x)
  show ?case
    unfolding x by (simp add: Let_def Cons.IH split: prod.splits)
qed

lemma update_fans_ok:
  assumes "\<forall>ka \<in> set fans. 200 \<le> max_rpm (fan_at s (snd ka))"
    and "fan_ok (fan_at s b) \<or> b \<in> snd ` set fans"
  shows "fan_ok (fan_at (fst (update_fans fans s w)) b)"
  using assms
proof (induction fans arbitrary: s w)
  case Nil
  then show ?case by simp
next
  case (Cons x fans)
  obtain k a where x: "x = (k, a)" by (cases x)
  obtain rpm0 w' where
    br: "fan_variation k (real_of_int (max_rpm (fan_at s a)) * 0.4) w = (rpm0, w')"
    by fastforce
  have m: "200 \<le> max_rpm (fan_at s a)" using Cons.prems(1) x by simp
  define speed where
    "speed = clamp 10 100 (py_trunc (real_of_int rpm0 / real_of_int (max_rpm (fan_at s a)) * 100))"
  define f' where
    "f' = (fan_at s a)\<lparr>current_rpm := clamp 200 (max_rpm (fan_at s a)) rpm0,
       current_speed := speed,
       status := (if speed > 80 then ''High'' else if speed > 60 then ''Medium'' else ''Normal'')\<rparr>"
  define s1 where "s1 = s\<lparr>fan_at := (fan_at s)(a := f')\<rparr>"
  have step: "update_fans (x # fans) s w = update_fans fans s1 w'"
    unfolding x using m br by (simp add: Let_def s1_def f'_def speed_def)
  have ok': "fan_ok f'" using m
    by (auto simp: f'_def speed_def fan_ok_def status_of_speed_def clamp_def max_def min_def)
  have p1: "\<forall>ka \<in> set fans. 200 \<le> max_rpm (fan_at s1 (snd ka))"
    using Cons.prems(1) m by (auto simp: s1_def f'_def)
  have p2: "fan_ok (fan_at s1 b) \<or> b \<in> snd ` set fans"
    using Cons.prems(2) ok' x by (auto simp: s1_def)
  show ?case unfolding step by (rule Cons.IH[OF p1 p2])
qed

text \<open>
  Claim C4 is right and \<open>set_fan_speed\<close> is at fault: it stores percent and RPM and
  leaves \<open>status\<close> as it was, while the refresh tick recomputes it. Setting the CPU
  fan to 90 percent leaves the status \<open>Normal\<close>, where 90 is above the 80 of \<open>High\<close>.
\<close>

theorem set_fan_speed_keeps_status:
  "map_option (\<lambda>f. (current_speed f, status f))
     (fan_of (snd (set_fan_speed ''cpu_fan'' 90 boot_fans)) ''cpu_fan'') = Some (90, ''Normal'')
   \<and> status_of_speed 90 = ''High''"
  by (simp add: fan_of_def set_fan_speed_def boot_fdict boot_cpu_fan rpm_90 Let_def
      status_of_speed_def)

text \<open>
  Claim C7 is right and \<open>set_fan_speed\<close> is at fault: it stores the RPM of any percent
  without the clamp that the refresh tick applies. Setting the CPU fan to 150 percent
  stores 4500 RPM, above its \<open>max_rpm\<close> of 3000.
\<close>

theorem set_fan_speed_exceeds_max_rpm:
  "map_option (\<lambda>f. (current_rpm f, max_rpm f))
     (fan_of (snd (set_fan_speed ''cpu_fan'' 150 boot_fans)) ''cpu_fan'') = Some (4500, 3000)"
  by (simp add: fan_of_def set_fan_speed_def boot_fdict boot_cpu_fan rpm_150 Let_def)

section \<open>Properties of the metric cache\<close>

lemma cpu_returns_cached:
  "get_cached_cpu_percent s w = (v, s', w') \<Longrightarrow> v = cached_cpu_percent s'"
  by (auto simp: get_cached_cpu_percent_def split: prod.splits if_splits option.splits)

text \<open>
  Claim C8. A call of the CPU accessor whose clock reading is within the cache
  duration of the stored timestamp returns the cached value and leaves the monitor
  unchanged; its only external call is the clock reading, so no query is made. A call
  whose reading is further from the timestamp, with \<open>psutil\<close> importable and the query
  returning \<open>v\<close>, makes the query, stores \<open>v\<close> with the reading as the new timestamp and
  returns \<open>v\<close>. Hence a second call within the duration of the timestamp left by any
  first call returns the first call's value without a query. The duration is two
  seconds from construction on, and the accessor does not change it.
\<close>

theorem cached_cpu_percent_ttl:
  "(time_oracle w0 (length (log w0)) - last_cpu_check s0 \<le> cache_duration s0 \<longrightarrow>
      get_cached_cpu_percent s0 w0 = (cached_cpu_percent s0, s0, called TimeTime w0))
   \<and> (cache_duration s < time_oracle w (length (log w)) - last_cpu_check s \<and>
        import_psutil_oracle w (length (log w) + 1) \<and>
        cpu_percent_oracle w (length (log w) + 2) = Some v \<longrightarrow>
      get_cached_cpu_percent s w =
        (v, s\<lparr>cached_cpu_percent := v, last_cpu_check := time_oracle w (length (log w))\<rparr>,
         called CpuPercent (called ImportPsutil (called TimeTime w))))
   \<and> (get_cached_cpu_percent s w = (v1, s1, w1) \<and>
        time_oracle w1 (length (log w1)) - last_cpu_check s1 \<le> cache_duration s1 \<longrightarrow>
      get_cached_cpu_percent s1 w1 = (v1, s1, called TimeTime w1))
   \<and> cache_duration fresh_monitor = 2
   \<and> cache_duration (fst (snd (get_cached_cpu_percent s w))) = cache_duration s"
proof (intro conjI impI)
  assume "time_oracle w0 (length (log w0)) - last_cpu_check s0 \<le> cache_duration s0"
  then show "get_cached_cpu_percent s0 w0 = (cached_cpu_percent s0, s0, called TimeTime w0)"
    by (simp add: get_cached_cpu_percent_def time_time_def)
next
  assume "cache_duration s < time_oracle w (length (log w)) - last_cpu_check s \<and>
        import_psutil_oracle w (length (log w) + 1) \<and>
        cpu_percent_oracle w (length (log w) + 2) = Some v"
  then show "get_cached_cpu_percent s w =
        (v, s\<lparr>cached_cpu_percent := v, last_cpu_check := time_oracle w (length (log w))\<rparr>,
         called CpuPercent (called ImportPsutil (called TimeTime w)))"
    by (simp add: get_cached_cpu_percent_def prim_defs)
next
  assume second: "get_cached_cpu_percent s w = (v1, s1, w1) \<and>
        time_oracle w1 (length (log w1)) - last_cpu_check s1 \<le> cache_duration s1"
  then have "v1 = cached_cpu_percent s1" using cpu_returns_cached by blast
  with second show "get_cached_cpu_percent s1 w1 = (v1, s1, called TimeTime w1)"
    by (simp add: get_cached_cpu_percent_def time_time_def)
next
  show "cache_duration fresh_monitor = 2" by (simp add: fresh_monitor_def)
next
  show "cache_duration (fst (snd (get_cached_cpu_percent s w))) = cache_duration s"
    by (simp add: get_cached_cpu_percent_def split: prod.splits option.splits)
qed

lemma stale_call:
  "get_cached_cpu_percent fresh_monitor (steady_world 5) =
     (50, fresh_monitor\<lparr>cached_cpu_percent := 50, last_cpu_check := 5\<rparr>,
      called CpuPercent (called ImportPsutil (called TimeTime (steady_world 5))))"
  by (simp add: get_cached_cpu_percent_def prim_defs steady_world_def fresh_monitor_def)

theorem cached_cpu_percent_ttl_witness:
  "time_oracle (steady_world 1) (length (log (steady_world 1))) - last_cpu_check fresh_monitor
     \<le> cache_duration fresh_monitor
   \<and> get_cached_cpu_percent fresh_monitor (steady_world 1) =
       (0, fresh_monitor, called TimeTime (steady_world 1))
   \<and> cache_duration fresh_monitor
       < time_oracle (steady_world 5) (length (log (steady_world 5))) - last_cpu_check fresh_monitor
   \<and> import_psutil_oracle (steady_world 5) (length (log (steady_world 5)) + 1)
   \<and> cpu_percent_oracle (steady_world 5) (length (log (steady_world 5)) + 2) = Some 50
   \<and> get_cached_cpu_percent fresh_monitor (steady_world 5) =
       (50, fresh_monitor\<lparr>cached_cpu_percent := 50, last_cpu_check := 5\<rparr>,
        called CpuPercent (called ImportPsutil (called TimeTime (steady_world 5))))
   \<and> get_cached_cpu_percent (fresh_monitor\<lparr>cached_cpu_percent := 50, last_cpu_check := 5\<rparr>)
        (called CpuPercent (called ImportPsutil (called TimeTime (steady_world 5)))) =
       (50, fresh_monitor\<lparr>cached_cpu_percent := 50, last_cpu_check := 5\<rparr>,
        called TimeTime (called CpuPercent (called ImportPsutil (called TimeTime (steady_world 5)))))"
  using cached_cpu_percent_ttl [of "steady_world 1" fresh_monitor fresh_monitor "steady_world 5" 50
      50 "fresh_monitor\<lparr>cached_cpu_percent := 50, last_cpu_check := 5\<rparr>"
      "called CpuPercent (called ImportPsutil (called TimeTime (steady_world 5)))"]
  by (simp add: stale_call steady_world_def fresh_monitor_def called_def)

section \<open>Properties of the refresh tick\<close>

subsection \<open>What a call leaves unchanged\<close>

lemma same_oracles_refl [simp]: "same_oracles w w"
  by (simp add: same_oracles_def)

lemma same_oracles_trans: "same_oracles w w1 \<Longrightarrow> same_oracles w1 w2 \<Longrightarrow> same_oracles w w2"
  by (auto simp: same_oracles_def)

lemma same_oracles_called [simp]: "same_oracles w (called c w)"
  by (simp add: same_oracles_def called_def)

lemma same_store_refl [simp]: "same_store s s"
  by (simp add: same_store_def)

lemma same_store_trans: "same_store s s1 \<Longrightarrow> same_store s1 s2 \<Longrightarrow> same_store s s2"
  by (auto simp: same_store_def)

lemma prim_oracles:
  "same_oracles w (snd (time_time w))"
  "same_oracles w (snd (uniform a b w))"
  "same_oracles w (snd (import_psutil w))"
  "same_oracles w (snd (psutil_cpu_percent w))"
  "same_oracles w (snd (psutil_virtual_memory w))"
  "same_oracles w (snd (psutil_cpu_freq w))"
  "same_oracles w (snd (psutil_cpu_count w))"
  "same_oracles w (snd (psutil_disk_io_counters w))"
  "same_oracles w (snd (psutil_disk_partitions w))"
  "same_oracles w (snd (platform_processor w))"
  "same_oracles w (snd (gpu_name_query w))"
  by (simp_all add: prim_defs same_oracles_def)

lemma cached_cpu_frame:
  "get_cached_cpu_percent s w = (v, s1, w1) \<Longrightarrow> same_store s s1 \<and> same_oracles w w1"
  by (auto simp: get_cached_cpu_percent_def prim_defs same_store_def same_oracles_def
      split: prod.splits if_splits option.splits)

lemma cached_memory_frame:
  "get_cached_memory_percent s w = (v, s1, w1) \<Longrightarrow> same_store s s1 \<and> same_oracles w w1"
  by (auto simp: get_cached_memory_percent_def prim_defs same_store_def same_oracles_def
      split: prod.splits if_splits option.splits)

lemma memory_usage_oracles: "memory_usage w = (r, w1) \<Longrightarrow> same_oracles w w1"
  by (auto simp: memory_usage_def prim_defs same_oracles_def split: option.splits if_splits)

lemma simulated_formula_oracles:
  "simulated_formula k info cpu mem tf w = (r, w1) \<Longrightarrow> same_oracles w w1"
  by (cases "kind_of k")
    (auto simp: simulated_formula_def Let_def prim_defs memory_usage_def same_oracles_def
      split: if_splits option.splits prod.splits)


lemma sensor_frame_refl [simp]: "sensor_frame s s"
  by (simp add: sensor_frame_def)

lemma sensor_frame_trans: "sensor_frame s s1 \<Longrightarrow> sensor_frame s1 s2 \<Longrightarrow> sensor_frame s s2"
  by (auto simp: sensor_frame_def)

lemma same_store_frame: "same_store s s1 \<Longrightarrow> sensor_frame s s1"
  by (simp add: same_store_def sensor_frame_def)

lemma dict_set_keys: "fst ` set (dict_set k v d) = insert k (fst ` set d)"
proof (cases "k \<in> fst ` set d")
  case True
  have "(\<lambda>kv. fst (if fst kv = k then (k, v) else kv)) = fst" by auto
  then have "fst ` set (map (\<lambda>kv. if fst kv = k then (k, v) else kv) d) = fst ` set d"
    by (simp only: set_map image_image)
  moreover have "dict_set k v d = map (\<lambda>kv. if fst kv = k then (k, v) else kv) d"
    using True by (simp only: dict_set_def if_True)
  ultimately show ?thesis using True by (simp only: insert_absorb)
next
  case False
  then show ?thesis by (simp add: dict_set_def)
qed

lemma dict_set_values: "kv \<in> set (dict_set k v d) \<Longrightarrow> kv = (k, v) \<or> kv \<in> set d"
  by (auto simp: dict_set_def split: if_splits)

lemma update_simulated_sensor_frame:
  assumes "update_simulated_sensor k info s w = (r, s1, w1)"
  shows "same_store s s1 \<and> same_oracles w w1 \<and> (\<exists>x. r = Some x)"
proof (cases "import_psutil_oracle w (length (log w))")
  case False
  then show ?thesis using assms
    by (auto simp: update_simulated_sensor_def import_psutil_def same_oracles_def called_def)
next
  case True
  define w0 where "w0 = called ImportPsutil w"
  obtain cpu sa wa where a: "get_cached_cpu_percent s w0 = (cpu, sa, wa)"
    by (cases "get_cached_cpu_percent s w0")
  obtain mem sb wb where b: "get_cached_memory_percent sa wa = (mem, sb, wb)"
    by (cases "get_cached_memory_percent sa wa")
  note fa = cached_cpu_frame[OF a] and fb = cached_memory_frame[OF b]
  have st: "same_store s sb"
    by (rule same_store_trans[of s sa sb]) (simp_all add: fa fb)
  have o0: "same_oracles w w0" by (simp add: w0_def)
  have oa: "same_oracles w wa"
    by (rule same_oracles_trans[OF o0]) (simp add: fa)
  have o1: "same_oracles w wb"
    by (rule same_oracles_trans[OF oa]) (simp add: fb)
  define wc where "wc = called TimeTime wb"
  have o2: "same_oracles w wc" unfolding wc_def
    by (rule same_oracles_trans[OF o1]) simp
  show ?thesis
  proof (cases "contains ''Simulated'' (get_method info)")
    case False
    then have "s1 = sb \<and> w1 = called RandomRandom wc \<and> (\<exists>x. r = Some x)"
      using assms True a b
      by (auto simp: update_simulated_sensor_def import_psutil_def time_time_def uniform_def
          w0_def wc_def Let_def)
    moreover have "same_oracles w (called RandomRandom wc)"
      by (rule same_oracles_trans[OF o2]) simp
    ultimately show ?thesis using st by simp
  next
    case sim: True
    obtain fr wd where f: "simulated_formula k info cpu mem
        ((time_oracle wb (length (log wb)) - 10 * of_int \<lfloor>time_oracle wb (length (log wb)) / 10\<rfloor>) / 10) wc = (fr, wd)"
      by fastforce
    have "s1 = sb \<and> w1 = wd \<and> (\<exists>x. r = Some x)"
      using assms True a b sim f
      by (auto simp: update_simulated_sensor_def import_psutil_def time_time_def
          w0_def wc_def Let_def split: option.splits)
    moreover have "same_oracles w wd"
      by (rule same_oracles_trans[OF o2 simulated_formula_oracles[OF f]])
    ultimately show ?thesis using st by simp
  qed
qed

lemma update_loop_frame:
  assumes "update_loop items acc s w = (acc', s', w')"
  shows "sensor_frame s s' \<and> same_oracles w w' \<and>
         fst ` set acc' = fst ` set acc \<union> fst ` set items \<and>
         (\<forall>kv \<in> set acc'. kv \<in> set acc \<or> (next_addr s \<le> snd kv \<and> snd kv < next_addr s'))"
  using assms
proof (induction items arbitrary: acc s w)
  case Nil
  then show ?case by simp
next
  case (Cons x items)
  obtain k a where x: "x = (k, a)" by (cases x)
  obtain r s1 w1 where u: "update_simulated_sensor k (sensor_at s a) s w = (r, s1, w1)"
    by (cases "update_simulated_sensor k (sensor_at s a) s w")
  from update_simulated_sensor_frame[OF u] obtain v where
    st: "same_store s s1" and o: "same_oracles w w1" and r: "r = Some v" by blast
  define c where "c = next_addr s1"
  define s2 where "s2 = s1\<lparr>next_addr := Suc c,
                         sensor_at := (sensor_at s1)(c := (sensor_at s a)\<lparr>current := Some v\<rparr>)\<rparr>"
  have step: "update_loop (x # items) acc s w = update_loop items (dict_set k c acc) s2 w1"
    unfolding x using u r by (simp add: Let_def alloc_sensor_def s2_def c_def)
  have f2: "sensor_frame s s2"
    using st by (auto simp: sensor_frame_def same_store_def s2_def c_def)
  have n2: "next_addr s2 = Suc c" "c = next_addr s"
    using st by (auto simp: s2_def c_def same_store_def)
  from Cons.prems have rest: "update_loop items (dict_set k c acc) s2 w1 = (acc', s', w')"
    by (simp add: step)
  note ih = Cons.IH[OF rest]
  have keys: "fst ` set acc' = fst ` set acc \<union> fst ` set (x # items)"
    using ih by (auto simp: dict_set_keys x)
  have fresh: "\<forall>kv \<in> set acc'. kv \<in> set acc \<or> (next_addr s \<le> snd kv \<and> snd kv < next_addr s')"
  proof
    fix kv assume "kv \<in> set acc'"
    with ih have "kv \<in> set (dict_set k c acc) \<or> (next_addr s2 \<le> snd kv \<and> snd kv < next_addr s')"
      by blast
    moreover have "next_addr s2 \<le> next_addr s'" using ih by (simp add: sensor_frame_def)
    ultimately show "kv \<in> set acc \<or> (next_addr s \<le> snd kv \<and> snd kv < next_addr s')"
      using n2 dict_set_values[of kv k c acc] by auto
  qed
  have "sensor_frame s s'"
    by (rule sensor_frame_trans[OF f2]) (simp add: ih)
  moreover have "same_oracles w w'"
    by (rule same_oracles_trans[OF o]) (simp add: ih)
  ultimately show ?case using keys fresh by simp
qed

lemma get_updated_sensors_frame:
  assumes "get_updated_sensors s w = (d, s', w')"
  shows "sensor_frame s s' \<and> same_oracles w w' \<and> next_addr s \<le> d \<and> d < next_addr s' \<and>
         fst ` set (sdict_at s' d) = fst ` set (sdict_at s (sensors s)) \<and>
         (\<forall>kv \<in> set (sdict_at s' d). next_addr s \<le> snd kv \<and> snd kv < next_addr s')"
proof -
  obtain acc s1 w1 where l: "update_loop (sdict_at s (sensors s)) [] s w = (acc, s1, w1)"
    by (cases "update_loop (sdict_at s (sensors s)) [] s w")
  note p = update_loop_frame[OF l]
  have e: "d = next_addr s1" "w' = w1"
    "s' = s1\<lparr>sdict_at := (sdict_at s1)(next_addr s1 := acc), next_addr := Suc (next_addr s1)\<rparr>"
    using assms l by (auto simp: get_updated_sensors_def alloc_sdict_def)
  have "sensor_frame s1 s'" by (auto simp: e sensor_frame_def)
  then have "sensor_frame s s'"
    using p sensor_frame_trans[of s s1 s'] by simp
  moreover have "sdict_at s' d = acc" by (simp add: e)
  moreover have "next_addr s \<le> next_addr s1" using p by (simp add: sensor_frame_def)
  ultimately show ?thesis using p e by auto
qed

lemma initialize_fan_status_frame: "sensor_frame s (initialize_fan_status s)"
  by (simp add: initialize_fan_status_def alloc_defs sensor_frame_def)

lemma update_fans_frame:
  "sensor_frame s (fst (update_fans fans s w)) \<and>
   fan_status (fst (update_fans fans s w)) = fan_status s \<and>
   fdict_at (fst (update_fans fans s w)) = fdict_at s"
proof (induction fans arbitrary: s w)
  case Nil
  then show ?case by simp
next
  case (Cons x fans)
  obtain k a where x: "x = (k, a)" by (cases x)
  obtain rpm0 w' where
    br: "fan_variation k (real_of_int (max_rpm (fan_at s a)) * 0.4) w = (rpm0, w')"
    by fastforce
  show ?case
  proof (cases "max_rpm (fan_at s a) = 0")
    case True
    then show ?thesis unfolding x using br by (simp add: Let_def)
  next
    case False
    define s1 where "s1 = s\<lparr>fan_at := (fan_at s)
        (a := (fan_at s a)\<lparr>current_rpm := clamp 200 (max_rpm (fan_at s a)) rpm0,
           current_speed := clamp 10 100
             (py_trunc (real_of_int rpm0 / real_of_int (max_rpm (fan_at s a)) * 100)),
           status := (if clamp 10 100
             (py_trunc (real_of_int rpm0 / real_of_int (max_rpm (fan_at s a)) * 100)) > 80
               then ''High''
             else if clamp 10 100
             (py_trunc (real_of_int rpm0 / real_of_int (max_rpm (fan_at s a)) * 100)) > 60
               then ''Medium'' else ''Normal'')\<rparr>)\<rparr>"
    have step: "update_fans (x # fans) s w = update_fans fans s1 w'"
      unfolding x using False br by (simp add: Let_def s1_def)
    have f1: "sensor_frame s s1" by (simp add: s1_def sensor_frame_def)
    have "sensor_frame s (fst (update_fans fans s1 w'))"
      by (rule sensor_frame_trans[OF f1]) (simp add: Cons.IH)
    moreover have "fan_status (fst (update_fans fans s1 w')) = fan_status s"
      "fdict_at (fst (update_fans fans s1 w')) = fdict_at s"
      by (simp_all add: Cons.IH s1_def)
    ultimately show ?thesis by (simp add: step)
  qed
qed

lemma get_fan_status_returns_field:
  "fst (get_fan_status s w) = fan_status (fst (snd (get_fan_status s w)))"
  by (simp add: get_fan_status_def Let_def split: prod.splits)

lemma get_fan_status_frame: "sensor_frame s (fst (snd (get_fan_status s w)))"
proof -
  define s1 where
    "s1 = (if fdict_at s (fan_status s) = [] then initialize_fan_status s else s)"
  have f1: "sensor_frame s s1"
    by (simp add: s1_def initialize_fan_status_frame)
  have "fst (snd (get_fan_status s w))
          = fst (update_fans (fdict_at s1 (fan_status s1)) s1 (snd (time_time w)))"
    by (auto simp: get_fan_status_def update_fan_status_real_time_def s1_def Let_def
        split: prod.splits)
  moreover have "sensor_frame s (fst (update_fans (fdict_at s1 (fan_status s1)) s1 (snd (time_time w))))"
    by (rule sensor_frame_trans[OF f1]) (simp add: update_fans_frame)
  ultimately show ?thesis by simp
qed

lemma set_fan_speed_frame: "sensor_frame s (snd (set_fan_speed fan_id p s))"
  by (simp add: set_fan_speed_def sensor_frame_def Let_def split: option.splits)

lemma run_call_frame: "sensor_frame s (run_call c s)"
proof (cases c)
  case (GetUpdatedSensors w)
  obtain d s' w' where g: "get_updated_sensors s w = (d, s', w')"
    by (cases "get_updated_sensors s w")
  then show ?thesis using get_updated_sensors_frame[OF g] GetUpdatedSensors by simp
next
  case (GetFanStatus w)
  then show ?thesis by (simp add: get_fan_status_frame)
next
  case (SetFanSpeed fan_id p)
  then show ?thesis by (simp add: set_fan_speed_frame)
qed

lemma run_calls_frame: "sensor_frame s (run_calls cs s)"
proof (induction cs arbitrary: s)
  case Nil
  then show ?case by simp
next
  case (Cons c cs)
  show ?case
    using sensor_frame_trans[OF run_call_frame[of s c] Cons.IH[of "run_call c s"]] by simp
qed

lemma frame_keeps_sensors:
  assumes "sensors_allocated s" "sensor_frame s s'"
  shows "sensors_allocated s' \<and> sdict_at s' (sensors s') = sdict_at s (sensors s) \<and>
         sensor_items s' (sensors s') = sensor_items s (sensors s)"
proof -
  have d: "sensors s' = sensors s" "sdict_at s' (sensors s) = sdict_at s (sensors s)"
    using assms by (auto simp: sensor_frame_def sensors_allocated_def)
  have r: "\<forall>kv \<in> set (sdict_at s (sensors s)). sensor_at s' (snd kv) = sensor_at s (snd kv)"
    using assms by (auto simp: sensor_frame_def sensors_allocated_def)
  have "sensors_allocated s'"
    using assms d by (fastforce simp: sensor_frame_def sensors_allocated_def)
  moreover have "sensor_items s' (sensors s') = sensor_items s (sensors s)"
    using d r by (simp add: sensor_items_def)
  ultimately show ?thesis using d by simp
qed

lemma alloc_sensors_props:
  assumes "alloc_sensors xs s = (refs, s1)"
  shows "next_addr s \<le> next_addr s1 \<and> map fst refs = map fst xs \<and>
         (\<forall>kv \<in> set refs. snd kv < next_addr s1) \<and>
         sdict_at s1 = sdict_at s \<and> sensors s1 = sensors s"
  using assms
proof (induction xs arbitrary: s refs s1)
  case Nil
  then show ?case by simp
next
  case (Cons x xs)
  obtain k v where x: "x = (k, v)" by (cases x)
  define s0 where "s0 = snd (alloc_sensor v s)"
  obtain refs0 s2 where r: "alloc_sensors xs s0 = (refs0, s2)"
    by (cases "alloc_sensors xs s0")
  have e: "refs = (k, next_addr s) # refs0" "s1 = s2"
    using Cons.prems r by (auto simp: x s0_def alloc_sensor_def)
  have n0: "next_addr s0 = Suc (next_addr s)" "sdict_at s0 = sdict_at s" "sensors s0 = sensors s"
    by (simp_all add: s0_def alloc_sensor_def)
  note ih = Cons.IH[OF r]
  show ?case using ih n0 by (auto simp: e x)
qed

lemma detect_all_sensors_allocated:
  assumes "detect_all_sensors ms s w = (d, s0, w0)"
  shows "sensors s0 = d \<and> sensors_allocated s0"
proof -
  obtain all_sensors where "\<exists>refs s1. alloc_sensors all_sensors s = (refs, s1) \<and>
      d = next_addr s1 \<and>
      s0 = s1\<lparr>sdict_at := (sdict_at s1)(next_addr s1 := refs), next_addr := Suc (next_addr s1),
             sensors := next_addr s1\<rparr>"
    using assms
    by (auto simp: detect_all_sensors_def alloc_sdict_def split: prod.splits if_splits)
  then obtain refs s1 where a: "alloc_sensors all_sensors s = (refs, s1)"
    and e: "d = next_addr s1"
      "s0 = s1\<lparr>sdict_at := (sdict_at s1)(next_addr s1 := refs), next_addr := Suc (next_addr s1),
             sensors := next_addr s1\<rparr>"
    by blast
  note p = alloc_sensors_props[OF a]
  show ?thesis using p by (auto simp: e sensors_allocated_def)
qed

text \<open>
  Claim C10. \<open>get_updated_sensors\<close> never writes to the stored sensor map: after
  \<open>detect_all_sensors\<close> and any sequence of refresh ticks, fan ticks and
  \<open>set_fan_speed\<close> calls, \<open>self.sensors\<close> is still the map that the detection returned,
  and its content, every stored \<open>current\<close> included, is what the detection stored. Each
  tick therefore starts from the same stored values.
\<close>

theorem stored_sensors_never_written:
  "sensors (run_calls cs (fst (snd (detect_all_sensors ms s w)))) = fst (detect_all_sensors ms s w)
   \<and> sensor_items (run_calls cs (fst (snd (detect_all_sensors ms s w))))
        (fst (detect_all_sensors ms s w))
      = sensor_items (fst (snd (detect_all_sensors ms s w))) (fst (detect_all_sensors ms s w))"
proof -
  obtain d s0 w0 where det: "detect_all_sensors ms s w = (d, s0, w0)"
    by (cases "detect_all_sensors ms s w")
  note a = detect_all_sensors_allocated[OF det]
  have k: "sensors_allocated (run_calls cs s0) \<and>
         sdict_at (run_calls cs s0) (sensors (run_calls cs s0)) = sdict_at s0 (sensors s0) \<and>
         sensor_items (run_calls cs s0) (sensors (run_calls cs s0)) = sensor_items s0 (sensors s0)"
    by (rule frame_keeps_sensors) (simp_all add: a run_calls_frame)
  have "sensors (run_calls cs s0) = d"
    using run_calls_frame[of s0 cs] a by (simp add: sensor_frame_def)
  then show ?thesis using k a by (simp add: det)
qed

text \<open>
  Claim C5. The map returned by \<open>get_updated_sensors\<close> has the key set of the stored
  map. After \<open>detect_all_sensors\<close> and any sequence of later calls, a refresh returns
  the key set that the detection produced, and the stored map still has that key set.
\<close>

theorem sensor_keys_fixed:
  "fst ` set (sdict_at (fst (snd (get_updated_sensors s w))) (fst (get_updated_sensors s w)))
     = fst ` set (sdict_at s (sensors s))
   \<and> fst ` set (sdict_at
         (fst (snd (get_updated_sensors (run_calls cs (fst (snd (detect_all_sensors ms s0 w0)))) w1)))
         (fst (get_updated_sensors (run_calls cs (fst (snd (detect_all_sensors ms s0 w0)))) w1)))
     = fst ` set (sdict_at (fst (snd (detect_all_sensors ms s0 w0))) (fst (detect_all_sensors ms s0 w0)))
   \<and> fst ` set (sdict_at (run_calls cs (fst (snd (detect_all_sensors ms s0 w0))))
         (sensors (run_calls cs (fst (snd (detect_all_sensors ms s0 w0))))))
     = fst ` set (sdict_at (fst (snd (detect_all_sensors ms s0 w0))) (fst (detect_all_sensors ms s0 w0)))"
proof -
  have one: "\<And>s w. fst ` set (sdict_at (fst (snd (get_updated_sensors s w))) (fst (get_updated_sensors s w)))
     = fst ` set (sdict_at s (sensors s))"
  proof -
    fix s w
    obtain d s' w' where g: "get_updated_sensors s w = (d, s', w')"
      by (cases "get_updated_sensors s w")
    show "fst ` set (sdict_at (fst (snd (get_updated_sensors s w))) (fst (get_updated_sensors s w)))
     = fst ` set (sdict_at s (sensors s))"
      using get_updated_sensors_frame[OF g] by (simp add: g)
  qed
  obtain d sd wd where det: "detect_all_sensors ms s0 w0 = (d, sd, wd)"
    by (cases "detect_all_sensors ms s0 w0")
  note a = detect_all_sensors_allocated[OF det]
  have k: "sensors_allocated (run_calls cs sd) \<and>
         sdict_at (run_calls cs sd) (sensors (run_calls cs sd)) = sdict_at sd (sensors sd) \<and>
         sensor_items (run_calls cs sd) (sensors (run_calls cs sd)) = sensor_items sd (sensors sd)"
    by (rule frame_keeps_sensors) (simp_all add: a run_calls_frame)
  show ?thesis using one k a by (simp add: det)
qed

lemma gpu_monitor_allocated: "sensors_allocated gpu_monitor"
  by (simp add: sensors_allocated_def gpu_monitor_def fresh_monitor_def)

text \<open>
  Claim C9, as stated, fails for \<open>get_fan_status\<close>: it returns \<open>self.fan_status\<close>
  itself. On the monitor with its five fans, the returned reference is the monitor's
  own, and a caller that clears the map it received leaves the monitor without its
  CPU fan.
\<close>

theorem get_fan_status_returns_original:
  "fst (get_fan_status boot_fans (steady_world 0))
     = fan_status (fst (snd (get_fan_status boot_fans (steady_world 0))))
   \<and> fan_of (fst (snd (get_fan_status boot_fans (steady_world 0)))) ''cpu_fan'' \<noteq> None
   \<and> fan_of (caller_clears (fst (get_fan_status boot_fans (steady_world 0)))
               (fst (snd (get_fan_status boot_fans (steady_world 0))))) ''cpu_fan'' = None"
proof -
  define s' where "s' = fst (snd (get_fan_status boot_fans (steady_world 0)))"
  have r: "fst (get_fan_status boot_fans (steady_world 0)) = fan_status s'"
    unfolding s'_def by (rule get_fan_status_returns_field)
  have ne: "fdict_at boot_fans (fan_status boot_fans) \<noteq> []" by (simp add: boot_fdict)
  have "s' = fst (update_fans (fdict_at boot_fans (fan_status boot_fans)) boot_fans
                    (snd (time_time (steady_world 0))))"
    unfolding s'_def using ne
    by (auto simp: get_fan_status_def update_fan_status_real_time_def Let_def split: prod.splits)
  then have k: "fan_status s' = fan_status boot_fans" "fdict_at s' = fdict_at boot_fans"
    using update_fans_frame by simp_all
  have "fan_of s' ''cpu_fan'' \<noteq> None"
    by (simp add: fan_of_def k boot_fdict)
  moreover have "fan_of (caller_clears (fan_status s') s') ''cpu_fan'' = None"
    by (simp add: fan_of_def caller_clears_def)
  ultimately show ?thesis using r unfolding s'_def by simp
qed

text \<open>
  Claim C9, amended. \<open>get_fan_status\<close> returns the monitor's own fan map, not a copy.
  \<open>get_updated_sensors\<close> returns a map allocated by the call whose sensor dicts are
  allocated by the call; the stored map is left as it was, and overwriting any object
  allocated by the call, the returned map or a dict in it, leaves the content of the
  stored map unchanged.
\<close>

theorem returned_references:
  "fst (get_fan_status s w) = fan_status (fst (snd (get_fan_status s w)))
   \<and> (sensors_allocated s0 \<and> next_addr s0 \<le> c \<longrightarrow>
        next_addr s0 \<le> fst (get_updated_sensors s0 w0)
        \<and> (\<forall>kv \<in> set (sdict_at (fst (snd (get_updated_sensors s0 w0)))
                          (fst (get_updated_sensors s0 w0))). next_addr s0 \<le> snd kv)
        \<and> sensors (fst (snd (get_updated_sensors s0 w0))) = sensors s0
        \<and> sensor_items (fst (snd (get_updated_sensors s0 w0))) (sensors s0)
            = sensor_items s0 (sensors s0)
        \<and> sensor_items
              ((fst (snd (get_updated_sensors s0 w0)))
                 \<lparr>sensor_at := (sensor_at (fst (snd (get_updated_sensors s0 w0))))(c := x),
                  sdict_at := (sdict_at (fst (snd (get_updated_sensors s0 w0))))(c := dct)\<rparr>)
              (sensors s0)
            = sensor_items s0 (sensors s0))"
proof (intro conjI impI)
  show "fst (get_fan_status s w) = fan_status (fst (snd (get_fan_status s w)))"
    by (rule get_fan_status_returns_field)
next
  assume a: "sensors_allocated s0 \<and> next_addr s0 \<le> c"
  obtain d s1 w1 where g: "get_updated_sensors s0 w0 = (d, s1, w1)"
    by (cases "get_updated_sensors s0 w0")
  note f = get_updated_sensors_frame[OF g]
  have fr: "sensor_frame s0 s1" using f by simp
  note k = frame_keeps_sensors[of s0 s1]
  show "next_addr s0 \<le> fst (get_updated_sensors s0 w0)" using f by (simp add: g)
  show "\<forall>kv \<in> set (sdict_at (fst (snd (get_updated_sensors s0 w0)))
                          (fst (get_updated_sensors s0 w0))). next_addr s0 \<le> snd kv"
    using f by (simp add: g)
  show "sensors (fst (snd (get_updated_sensors s0 w0))) = sensors s0"
    using fr by (simp add: g sensor_frame_def)
  show "sensor_items (fst (snd (get_updated_sensors s0 w0))) (sensors s0)
            = sensor_items s0 (sensors s0)"
    using k a fr by (simp add: g sensor_frame_def)
  define s2 where "s2 = s1\<lparr>sensor_at := (sensor_at s1)(c := x), sdict_at := (sdict_at s1)(c := dct)\<rparr>"
  have "sensor_frame s0 s2"
    using a fr by (auto simp: s2_def sensor_frame_def)
  then have "sensor_items s2 (sensors s2) = sensor_items s0 (sensors s0)"
    using frame_keeps_sensors[of s0 s2] a by simp
  moreover have "sensors s2 = sensors s0" using fr by (simp add: s2_def sensor_frame_def)
  ultimately show "sensor_items
              ((fst (snd (get_updated_sensors s0 w0)))
                 \<lparr>sensor_at := (sensor_at (fst (snd (get_updated_sensors s0 w0))))(c := x),
                  sdict_at := (sdict_at (fst (snd (get_updated_sensors s0 w0))))(c := dct)\<rparr>)
              (sensors s0)
            = sensor_items s0 (sensors s0)"
    by (simp add: g s2_def)
qed

theorem returned_references_witness:
  "sensors_allocated gpu_monitor \<and> next_addr gpu_monitor \<le> 5
   \<and> next_addr gpu_monitor \<le> fst (get_updated_sensors gpu_monitor (steady_world 1001))
   \<and> sensors (fst (snd (get_updated_sensors gpu_monitor (steady_world 1001)))) = sensors gpu_monitor
   \<and> sensor_items
        ((fst (snd (get_updated_sensors gpu_monitor (steady_world 1001))))
           \<lparr>sensor_at := (sensor_at (fst (snd (get_updated_sensors gpu_monitor (steady_world 1001)))))
              (5 := simulated ''overwritten'' ''GPU'' 0 ''caller''),
            sdict_at := (sdict_at (fst (snd (get_updated_sensors gpu_monitor (steady_world 1001)))))
              (5 := [])\<rparr>)
        (sensors gpu_monitor)
      = sensor_items gpu_monitor (sensors gpu_monitor)"
proof -
  have n: "next_addr gpu_monitor \<le> 5" by (simp add: gpu_monitor_def fresh_monitor_def)
  show ?thesis
    using returned_references [where s = boot_fans and w = "steady_world 0"
        and ?s0.0 = gpu_monitor and c = 5 and ?w0.0 = "steady_world 1001"
        and x = "simulated ''overwritten'' ''GPU'' 0 ''caller''" and dct = "[]"]
      gpu_monitor_allocated n
    by simp
qed

end
